theory Spec2Isabelle
  imports Main "HOL-Library.Sublist" "HOL-Library.Char_ord" "HOL-Library.List_Lexorder"
    "HOL-Library.Multiset"
begin

section \<open>Python strings\<close>

text \<open>
  A Python \<open>str\<close> is modelled as a \<open>string\<close> (a list of characters). The file names,
  platform names and package names this program handles are ASCII, so a character is a
  code point and the order on characters (by code) is Python's order on them.
\<close>

text \<open>\<open>sep.join(xs)\<close>.\<close>

fun join :: "string \<Rightarrow> string list \<Rightarrow> string" where
  "join sep [] = []"
| "join sep [x] = x"
| "join sep (x # y # ys) = x @ sep @ join sep (y # ys)"

text \<open>\<open>pat in s\<close> for strings: \<open>pat\<close> occurs somewhere in \<open>s\<close>.\<close>

fun str_in :: "string \<Rightarrow> string \<Rightarrow> bool" where
  "str_in pat [] = (pat = [])"
| "str_in pat (c # cs) = (prefix pat (c # cs) \<or> str_in pat cs)"

text \<open>\<open>s.lower()\<close> on ASCII text: the letters A to Z become a to z.\<close>

definition lower_char :: "char \<Rightarrow> char" where
  "lower_char c =
     (if 65 \<le> (of_char c :: nat) \<and> (of_char c :: nat) \<le> 90
      then char_of (of_char c + (32 :: nat)) else c)"

definition lower :: "string \<Rightarrow> string" where
  "lower s = map lower_char s"

section \<open>Errors\<close>

text \<open>The exception classes of \<open>extbpy.exceptions\<close>, each carrying its message.\<close>

datatype error =
    ConfigurationError string
  | PlatformError string
  | DependencyError string
  | BuildError string
  | BlenderError string

section \<open>platforms.py\<close>

record Platform =
  name :: string
  pypi_suffix :: string
  metadata :: string

text \<open>
  The module-level dictionary \<open>PLATFORMS\<close>, in insertion order (the order of
  \<open>PLATFORMS.keys()\<close>). It is a constant: no function of the module takes it as an
  argument or returns a changed copy.
\<close>

definition PLATFORMS :: "(string \<times> Platform) list" where
  "PLATFORMS =
     [(''windows-x64'',
         \<lparr>name = ''windows-x64'', pypi_suffix = ''win_amd64'', metadata = ''windows-x64''\<rparr>),
      (''linux-x64'',
         \<lparr>name = ''linux-x64'', pypi_suffix = ''manylinux2014_x86_64'', metadata = ''linux-x64''\<rparr>),
      (''macos-arm64'',
         \<lparr>name = ''macos-arm64'', pypi_suffix = ''macosx_12_0_arm64'', metadata = ''macos-arm64''\<rparr>),
      (''macos-x64'',
         \<lparr>name = ''macos-x64'', pypi_suffix = ''macosx_10_16_x86_64'', metadata = ''macos-x64''\<rparr>)]"

text \<open>\<open>list_available_platforms\<close>: \<open>list(PLATFORMS.keys())\<close>.\<close>

definition list_available_platforms :: "string list" where
  "list_available_platforms = map fst PLATFORMS"

text \<open>\<open>get_platform(name)\<close>: the registry entry, or \<open>PlatformError\<close>.\<close>

definition get_platform :: "string \<Rightarrow> error + Platform" where
  "get_platform nm =
     (case map_of PLATFORMS nm of
        None \<Rightarrow>
          Inl (PlatformError
            (''Unsupported platform '' @ [CHR 0x27] @ nm @ [CHR 0x27] @ ''. Available: ''
               @ join '', '' (map fst PLATFORMS)))
      | Some p \<Rightarrow> Inr p)"

text \<open>
  \<open>get_platforms(names)\<close>: the list comprehension calls \<open>get_platform\<close> on each name in
  order; the first unknown name raises.
\<close>

fun get_platforms :: "string list \<Rightarrow> error + Platform list" where
  "get_platforms [] = Inr []"
| "get_platforms (n # ns) =
     (case get_platform n of
        Inl e \<Rightarrow> Inl e
      | Inr p \<Rightarrow> (case get_platforms ns of Inl e \<Rightarrow> Inl e | Inr ps \<Rightarrow> Inr (p # ps)))"

text \<open>
  \<open>detect_current_platform()\<close>. The two arguments are what \<open>platform.system()\<close> and
  \<open>platform.machine()\<close> return on the running system.
\<close>

definition detect_current_platform :: "string \<Rightarrow> string \<Rightarrow> error + string list" where
  "detect_current_platform sys mach =
     (let system = lower sys; machine = lower mach in
      if system = ''darwin'' then
        (if machine \<in> {''arm64'', ''aarch64''} then Inr [''macos-arm64'']
         else Inr [''macos-x64''])
      else if system = ''linux'' then
        (if machine \<in> {''x86_64'', ''amd64''} then Inr [''linux-x64'']
         else Inl (PlatformError (''Unsupported Linux architecture: '' @ machine)))
      else if system = ''windows'' then
        (if machine \<in> {''x86_64'', ''amd64''} then Inr [''windows-x64'']
         else Inl (PlatformError (''Unsupported Windows architecture: '' @ machine)))
      else Inl (PlatformError (''Unsupported operating system: '' @ system)))"

text \<open>
  The platform that matches a running system, in the words of the specification: each
  of the four logical platforms stands for one operating system and one CPU
  architecture (\<open>amd64\<close> and \<open>aarch64\<close> are the other names of \<open>x86_64\<close> and
  \<open>arm64\<close>); every other combination is unsupported.
\<close>

definition spec_matching_platform :: "string \<Rightarrow> string \<Rightarrow> string option" where
  "spec_matching_platform sys mach =
     (let system = lower sys; machine = lower mach in
      if system = ''darwin'' \<and> machine \<in> {''arm64'', ''aarch64''} then Some ''macos-arm64''
      else if system = ''darwin'' \<and> machine \<in> {''x86_64'', ''amd64''} then Some ''macos-x64''
      else if system = ''linux'' \<and> machine \<in> {''x86_64'', ''amd64''} then Some ''linux-x64''
      else if system = ''windows'' \<and> machine \<in> {''x86_64'', ''amd64''} then Some ''windows-x64''
      else None)"

subsection \<open>The wheel matcher\<close>






section \<open>builder.py\<close>

subsection \<open>The source directory and the project descriptor\<close>

text \<open>
  What \<open>tomlkit.parse\<close> reads from \<open>pyproject.toml\<close>, as far as the builder looks at
  it: the \<open>[project]\<close> table with its optional \<open>dependencies\<close> list, and the optional
  \<open>platforms\<close> list of \<open>[tool.extbpy]\<close>.
\<close>

record project_table =
  dependencies :: "string list option"

record pyproject =
  project :: "project_table option"
  tool_extbpy_platforms :: "string list option"

text \<open>
  The outcome of opening, reading and parsing \<open>pyproject.toml\<close>: the file is gone
  (\<open>FileNotFoundError\<close>), another exception with its text, or the parsed document.
\<close>

datatype read_result = NotFound | Failed string | Parsed pyproject

text \<open>
  An entry of the source directory is a file or a directory; of a directory the model
  keeps the names of its own entries.
\<close>

datatype node = File | Dir "string list"

text \<open>
  The source directory as the constructor sees it: whether the path exists, its entries
  in the order \<open>iterdir()\<close> yields them, and the outcome of reading the descriptor.
\<close>

record source_tree =
  dir_exists :: bool
  entries :: "(string \<times> node) list"
  pyproject_read :: read_result

text \<open>
  \<open>self.project_config\<close> once \<open>_load_project_config\<close> has returned: the \<open>[project]\<close>
  table is there and its \<open>dependencies\<close> key is set.
\<close>

record loaded_config =
  config_dependencies :: "string list"
  config_platforms :: "string list option"

record ExtensionBuilder =
  source_dir :: string
  output_dir :: string
  python_version :: string
  excluded_packages :: "string set"
  extension_dir :: string
  wheels_dir :: string
  manifest_path :: string
  pyproject_path :: string
  project_config :: loaded_config

text \<open>\<open>parent / child\<close> on paths.\<close>

definition path_join :: "string \<Rightarrow> string \<Rightarrow> string" where
  "path_join parent child = parent @ ''/'' @ child"

text \<open>The default of \<open>excluded_packages\<close> in \<open>__init__\<close>.\<close>

definition default_excluded_packages :: "string set" where
  "default_excluded_packages =
     {''pyarrow'', ''certifi'', ''charset_normalizer'', ''idna'',
      ''numpy'', ''requests'', ''urllib3''}"

text \<open>\<open>_validate_source_dir\<close>.\<close>

definition validate_source_dir :: "string \<Rightarrow> source_tree \<Rightarrow> error + unit" where
  "validate_source_dir src t =
     (if \<not> dir_exists t then
        Inl (ConfigurationError (''Source directory does not exist: '' @ src))
      else if ''pyproject.toml'' \<notin> fst ` set (entries t) then
        Inl (ConfigurationError (''No pyproject.toml found in '' @ src))
      else Inr ())"

text \<open>
  The first loop of \<open>_find_extension_dir\<close>: the first entry, in \<open>iterdir()\<close> order,
  that is a directory holding \<open>blender_manifest.toml\<close>.
\<close>

fun first_manifest_dir :: "(string \<times> node) list \<Rightarrow> string option" where
  "first_manifest_dir [] = None"
| "first_manifest_dir ((n, File) # es) = first_manifest_dir es"
| "first_manifest_dir ((n, Dir cs) # es) =
     (if ''blender_manifest.toml'' \<in> set cs then Some n else first_manifest_dir es)"

text \<open>The second loop: the first of the given names that is a directory.\<close>

fun first_fallback_dir :: "string list \<Rightarrow> (string \<times> node) list \<Rightarrow> string option" where
  "first_fallback_dir [] es = None"
| "first_fallback_dir (n # ns) es =
     (case map_of es n of
        Some (Dir cs) \<Rightarrow> Some n
      | _ \<Rightarrow> first_fallback_dir ns es)"

text \<open>\<open>_find_extension_dir\<close>.\<close>

definition find_extension_dir :: "string \<Rightarrow> source_tree \<Rightarrow> error + string" where
  "find_extension_dir src t =
     (case first_manifest_dir (entries t) of
        Some n \<Rightarrow> Inr (path_join src n)
      | None \<Rightarrow>
          (case first_fallback_dir [''extension'', ''addon'', ''warbler''] (entries t) of
             Some n \<Rightarrow> Inr (path_join src n)
           | None \<Rightarrow>
               Inl (ConfigurationError
                 (''No extension directory found in '' @ src
                    @ ''. Expected a directory containing blender_manifest.toml''))))"

text \<open>
  \<open>_load_project_config\<close>. The \<open>ConfigurationError\<close> raised inside the \<open>try\<close> for a
  missing \<open>[project]\<close> section is caught by \<open>except Exception\<close> and raised again with
  the prefix.
\<close>

definition load_project_config :: "string \<Rightarrow> source_tree \<Rightarrow> error + loaded_config" where
  "load_project_config pyproject_file t =
     (case pyproject_read t of
        NotFound \<Rightarrow>
          Inl (ConfigurationError (''pyproject.toml not found: '' @ pyproject_file))
      | Failed e \<Rightarrow>
          Inl (ConfigurationError (''Error reading pyproject.toml: '' @ e))
      | Parsed config \<Rightarrow>
          (case project config of
             None \<Rightarrow>
               Inl (ConfigurationError
                 (''Error reading pyproject.toml: No [project] section in pyproject.toml''))
           | Some pr \<Rightarrow>
               Inr \<lparr>config_dependencies =
                      (case dependencies pr of None \<Rightarrow> [] | Some ds \<Rightarrow> ds),
                    config_platforms = tool_extbpy_platforms config\<rparr>))"

text \<open>
  \<open>ExtensionBuilder.__init__(source_dir, output_dir, python_version,
  excluded_packages)\<close>, on the source directory \<open>t\<close> and with the current directory
  \<open>cwd\<close>. \<open>None\<close> is Python's \<open>None\<close>; \<open>x or d\<close> takes \<open>d\<close> when \<open>x\<close> is \<open>None\<close> or
  empty. Paths are taken as already resolved.
\<close>

definition init :: "source_tree \<Rightarrow> string \<Rightarrow> string \<Rightarrow> string option \<Rightarrow> string
    \<Rightarrow> string set option \<Rightarrow> error + ExtensionBuilder" where
  "init t cwd src out pyver excl =
     (let out_dir = (case out of None \<Rightarrow> cwd | Some d \<Rightarrow> if d = [] then cwd else d);
          excluded = (case excl of
                        None \<Rightarrow> default_excluded_packages
                      | Some s \<Rightarrow> if s = {} then default_excluded_packages else s)
      in case validate_source_dir src t of
           Inl e \<Rightarrow> Inl e
         | Inr u \<Rightarrow>
             (case find_extension_dir src t of
                Inl e \<Rightarrow> Inl e
              | Inr ext \<Rightarrow>
                  (case load_project_config (path_join src ''pyproject.toml'') t of
                     Inl e \<Rightarrow> Inl e
                   | Inr config \<Rightarrow>
                       Inr \<lparr>source_dir = src,
                            output_dir = out_dir,
                            python_version = pyver,
                            excluded_packages = excluded,
                            extension_dir = ext,
                            wheels_dir = path_join ext ''wheels'',
                            manifest_path = path_join ext ''blender_manifest.toml'',
                            pyproject_path = path_join src ''pyproject.toml'',
                            project_config = config\<rparr>)))"

text \<open>
  Modelled from the spec: \<open>get_configured_platforms\<close> is called on the builder by the
  tests, but \<open>builder.py\<close> under \<open>src/\<close> does not define it. Following section 4.3
  of the specification: it reads the optional platform list of the tool's section of the
  project descriptor, checks each name against the platform registry, fails with an
  "Invalid platforms" configuration error that lists the unknown names, and returns the
  empty list when the setting is absent.
\<close>

definition get_configured_platforms :: "ExtensionBuilder \<Rightarrow> error + string list" where
  "get_configured_platforms b =
     (case config_platforms (project_config b) of
        None \<Rightarrow> Inr []
      | Some platforms \<Rightarrow>
          (let invalid = filter (\<lambda>p. p \<notin> set list_available_platforms) platforms in
           if invalid \<noteq> [] then
             Inl (ConfigurationError (''Invalid platforms: '' @ join '', '' invalid))
           else Inr platforms))"

text \<open>
  The subdirectories of the source directory that hold a manifest file, and the
  conventional fallback names that are directories, both in the order the constructor
  visits them.
\<close>

definition manifest_dirs :: "source_tree \<Rightarrow> string list" where
  "manifest_dirs t =
     map fst (filter (\<lambda>(n, nd). case nd of File \<Rightarrow> False
                                 | Dir cs \<Rightarrow> ''blender_manifest.toml'' \<in> set cs) (entries t))"

definition fallback_dirs :: "source_tree \<Rightarrow> string list" where
  "fallback_dirs t =
     filter (\<lambda>n. case map_of (entries t) n of Some (Dir cs) \<Rightarrow> True | _ \<Rightarrow> False)
       [''extension'', ''addon'', ''warbler'']"

text \<open>
  A source directory with a descriptor and two subdirectories that each hold a manifest.
\<close>

definition two_manifest_tree :: source_tree where
  "two_manifest_tree =
     \<lparr>dir_exists = True,
      entries = [(''pyproject.toml'', File),
                 (''a'', Dir [''blender_manifest.toml'']),
                 (''b'', Dir [''blender_manifest.toml''])],
      pyproject_read = Parsed \<lparr>project = Some \<lparr>dependencies = Some [''click>=8.0.0'']\<rparr>,
                               tool_extbpy_platforms = None\<rparr>\<rparr>"

text \<open>
  The project of the tests' fixture: a descriptor with two dependencies and two
  configured platforms, and one extension directory with its manifest.
\<close>

definition fixture_tree :: source_tree where
  "fixture_tree =
     \<lparr>dir_exists = True,
      entries = [(''pyproject.toml'', File),
                 (''test-extension'', Dir [''blender_manifest.toml'', ''__init__.py''])],
      pyproject_read =
        Parsed \<lparr>project = Some \<lparr>dependencies = Some [''click>=8.0.0'', ''rich>=13.0.0'']\<rparr>,
                tool_extbpy_platforms = Some [''windows-x64'', ''linux-x64'']\<rparr>\<rparr>"

definition fixture_builder :: "string set \<Rightarrow> loaded_config \<Rightarrow> ExtensionBuilder" where
  "fixture_builder excluded config =
     \<lparr>source_dir = ''/proj'',
      output_dir = ''/cwd'',
      python_version = ''3.11'',
      excluded_packages = excluded,
      extension_dir = ''/proj/test-extension'',
      wheels_dir = ''/proj/test-extension/wheels'',
      manifest_path = ''/proj/test-extension/blender_manifest.toml'',
      pyproject_path = ''/proj/pyproject.toml'',
      project_config = config\<rparr>"

subsection \<open>The wheels directory\<close>

text \<open>
  The wheels directory is modelled by the names of the files in it, in the order the
  directory listing enumerates them; a missing directory lists nothing. A path in it
  stands for its file name: all of them share the parent \<open>wheels_dir\<close>, so paths
  compare as their names do (POSIX paths: character by character, by code point).
\<close>

text \<open>\<open>self.wheels_dir.glob("*.whl")\<close>: the entries whose name ends with \<open>.whl\<close>.\<close>

definition glob_whl :: "string list \<Rightarrow> string list" where
  "glob_whl listing = filter (suffix ''.whl'') listing"

text \<open>
  The \<open>should_exclude\<close> of \<open>_filter_wheels\<close>:
  \<open>any(pkg.lower() in whl_name for pkg in self.excluded_packages)\<close>, with
  \<open>whl_name = whl_path.name.lower()\<close>.
\<close>

definition should_exclude :: "string set \<Rightarrow> string \<Rightarrow> bool" where
  "should_exclude excluded whl =
     (let whl_name = lower whl in \<exists>pkg \<in> excluded. str_in (lower pkg) whl_name)"

text \<open>
  \<open>_filter_wheels\<close>: the kept wheels, and the directory listing once the excluded
  wheels are unlinked.
\<close>

definition filter_wheels :: "ExtensionBuilder \<Rightarrow> string list \<Rightarrow> string list \<times> string list" where
  "filter_wheels b listing =
     (let wheel_files = sort (glob_whl listing);
          to_keep = filter (\<lambda>whl. \<not> should_exclude (excluded_packages b) whl) wheel_files;
          to_remove = filter (\<lambda>whl. should_exclude (excluded_packages b) whl) wheel_files
      in (to_keep, filter (\<lambda>f. f \<notin> set to_remove) listing))"

subsection \<open>Downloading wheels\<close>

text \<open>
  The external command \<open>python -m pip download ...\<close> that \<open>_run_python_command\<close>
  starts with \<open>subprocess.run\<close>: from its arguments and the wheels directory it either
  exits with status zero or fails with its error output, and it leaves the wheels
  directory in some state.
\<close>

type_synonym pip = "string list \<Rightarrow> string list \<Rightarrow> (string + unit) \<times> string list"

text \<open>\<open>_run_python_command\<close>: a failing command raises \<open>DependencyError\<close>.\<close>

definition run_python_command :: "pip \<Rightarrow> string list \<Rightarrow> string list
    \<Rightarrow> (error + unit) \<times> string list" where
  "run_python_command run args listing =
     (case run args listing of
        (Inl err, listing') \<Rightarrow> (Inl (DependencyError (''Python command failed: '' @ err)), listing')
      | (Inr u, listing') \<Rightarrow> (Inr (), listing'))"

text \<open>The \<open>cmd\<close> that \<open>download_wheels\<close> builds for one platform.\<close>

definition download_cmd :: "ExtensionBuilder \<Rightarrow> Platform \<Rightarrow> string list" where
  "download_cmd b platform_obj =
     [''-m'', ''pip'', ''download'']
       @ config_dependencies (project_config b)
       @ [''--dest'', wheels_dir b,
          ''--only-binary=:all:'',
          ''--python-version='' @ python_version b,
          ''--platform='' @ pypi_suffix platform_obj]"

text \<open>
  The loop of \<open>download_wheels\<close> over the platform objects, with the lists
  \<open>failed_platforms\<close> and \<open>successful_platforms\<close> it appends to.
\<close>

fun download_each :: "pip \<Rightarrow> ExtensionBuilder \<Rightarrow> Platform list \<Rightarrow> string list \<Rightarrow> string list
    \<Rightarrow> string list \<Rightarrow> string list \<times> string list \<times> string list" where
  "download_each run b [] failed successful listing = (failed, successful, listing)"
| "download_each run b (p # ps) failed successful listing =
     (case run_python_command run (download_cmd b p) listing of
        (Inr u, listing') \<Rightarrow> download_each run b ps failed (successful @ [name p]) listing'
      | (Inl e, listing') \<Rightarrow> download_each run b ps (failed @ [name p]) successful listing')"

text \<open>
  \<open>download_wheels(platforms, clean, ignore_platform_errors)\<close>. The result is the
  exception raised or the value returned, where \<open>None\<close> is Python's \<open>None\<close> (the bare
  \<open>return\<close>), together with the wheels directory afterwards. \<open>_clean_wheels_dir\<close>
  leaves an empty directory.
\<close>

definition download_wheels :: "pip \<Rightarrow> ExtensionBuilder \<Rightarrow> string list \<Rightarrow> bool \<Rightarrow> bool
    \<Rightarrow> string list \<Rightarrow> (error + string list option) \<times> string list" where
  "download_wheels run b platforms clean ignore_platform_errors listing =
     (case get_platforms platforms of
        Inl e \<Rightarrow> (Inl e, listing)
      | Inr platform_objects \<Rightarrow>
          if config_dependencies (project_config b) = [] then (Inr None, listing)
          else
            (case download_each run b platform_objects [] []
                    (if clean then [] else listing) of
               (failed_platforms, successful_platforms, listing') \<Rightarrow>
                 if failed_platforms \<noteq> [] \<and> successful_platforms = [] then
                   (Inl (DependencyError
                      (''Failed to download wheels for all platforms: ''
                         @ join '', '' failed_platforms)), listing')
                 else if failed_platforms \<noteq> [] then
                   (if ignore_platform_errors then (Inr (Some successful_platforms), listing')
                    else
                      (Inl (DependencyError
                         (''Failed to download wheels for platforms: ''
                            @ join '', '' failed_platforms)), listing'))
                 else (Inr (Some successful_platforms), listing')))"

text \<open>
  The outcome of each download the loop attempts, in order: the platform name and
  whether its command succeeded.
\<close>

fun download_outcomes :: "pip \<Rightarrow> ExtensionBuilder \<Rightarrow> Platform list \<Rightarrow> string list
    \<Rightarrow> (string \<times> bool) list" where
  "download_outcomes run b [] listing = []"
| "download_outcomes run b (p # ps) listing =
     (case run (download_cmd b p) listing of
        (r, listing') \<Rightarrow> (name p, \<not> isl r) # download_outcomes run b ps listing')"

definition succeeded_names :: "(string \<times> bool) list \<Rightarrow> string list" where
  "succeeded_names outcomes = map fst (filter snd outcomes)"

definition failed_names :: "(string \<times> bool) list \<Rightarrow> string list" where
  "failed_names outcomes = map fst (filter (\<lambda>(n, ok). \<not> ok) outcomes)"

subsection \<open>The manifest\<close>

abbreviation dq :: char where "dq \<equiv> CHR 0x22"
abbreviation bs :: char where "bs \<equiv> CHR 0x5C"
abbreviation nl :: char where "nl \<equiv> CHR 0x0A"
abbreviation tab :: char where "tab \<equiv> CHR 0x09"

text \<open>
  \<open>s.replace(old, new)\<close>: every occurrence of \<open>old\<close>, found from the left and not
  overlapping, becomes \<open>new\<close>. (The program never replaces the empty string.)
\<close>

function replace :: "string \<Rightarrow> string \<Rightarrow> string \<Rightarrow> string" where
  "replace old new [] = []"
| "replace old new (c # cs) =
     (if old \<noteq> [] \<and> prefix old (c # cs)
      then new @ replace old new (drop (length old) (c # cs))
      else c # replace old new cs)"
  by pat_completeness auto
termination
  by (relation "measure (\<lambda>(old, new, s). length s)") (auto simp: neq_Nil_conv)

text \<open>
  The manifest document of \<open>tomlkit\<close>, as far as this program sees it: the top-level
  keys in file order, each with its value. \<open>tomlkit\<close> keeps the source text of every
  value it parsed and writes it back as it stands (\<open>Source\<close>); a Python list of
  strings that the program assigns (\<open>Strings\<close>) is written as a one-line array of
  basic strings.
\<close>

datatype toml_item = Source string | Strings "string list"

type_synonym toml_doc = "(string \<times> toml_item) list"

text \<open>
  A basic string escapes the backslash, the double quote, and the control characters
  backspace, tab, newline, form feed and carriage return by their short forms. (Other
  control characters, written as \<open>u\<close> escapes, do not occur in the names handled here.)
\<close>

fun escape_basic :: "string \<Rightarrow> string" where
  "escape_basic [] = []"
| "escape_basic (c # cs) =
     (if c = bs \<or> c = dq then bs # c # escape_basic cs
      else if c = CHR 0x08 then bs # CHR ''b'' # escape_basic cs
      else if c = tab then bs # CHR ''t'' # escape_basic cs
      else if c = nl then bs # CHR ''n'' # escape_basic cs
      else if c = CHR 0x0C then bs # CHR ''f'' # escape_basic cs
      else if c = CHR 0x0D then bs # CHR ''r'' # escape_basic cs
      else c # escape_basic cs)"

definition dumps_item :: "toml_item \<Rightarrow> string" where
  "dumps_item v =
     (case v of
        Source text \<Rightarrow> text
      | Strings xs \<Rightarrow> ''['' @ join '', '' (map (\<lambda>x. [dq] @ escape_basic x @ [dq]) xs) @ '']'')"

text \<open>
  \<open>tomlkit.dumps\<close>: one \<open>key = value\<close> line for each key. The model covers
  manifests made of such lines only, each written with one space on either side of the
  equals sign; tables, comments and other spacing, which \<open>tomlkit\<close> would write back
  as they stood, are outside it.
\<close>

definition dumps :: "toml_doc \<Rightarrow> string" where
  "dumps doc = concat (map (\<lambda>(k, v). k @ '' = '' @ dumps_item v @ [nl]) doc)"

text \<open>
  \<open>manifest[key] = value\<close>: an existing key keeps its place and gets the new value, a
  new key goes to the end.
\<close>

fun set_item :: "toml_doc \<Rightarrow> string \<Rightarrow> toml_item \<Rightarrow> toml_doc" where
  "set_item [] key v = [(key, v)]"
| "set_item ((k, w) # doc) key v =
     (if k = key then (k, v) # doc else (k, w) # set_item doc key v)"

text \<open>The \<open>wheel_paths\<close> of \<open>update_manifest\<close>.\<close>

definition wheel_paths :: "string list \<Rightarrow> string list" where
  "wheel_paths wheel_files = map (\<lambda>whl. ''./wheels/'' @ whl) wheel_files"

text \<open>
  The document \<open>update_manifest\<close> serialises: the loaded manifest (or a new, empty
  document when there is no manifest file) with the two assignments made.
\<close>

definition manifest_document :: "Platform list \<Rightarrow> string list \<Rightarrow> toml_doc option \<Rightarrow> toml_doc" where
  "manifest_document platform_objects wheel_files manifest_file =
     (let manifest = (case manifest_file of Some doc \<Rightarrow> doc | None \<Rightarrow> []);
          manifest1 = set_item manifest ''wheels'' (Strings (wheel_paths wheel_files));
          platform_names = map metadata platform_objects
      in set_item manifest1 ''platforms'' (Strings platform_names))"

text \<open>The four replacements \<open>update_manifest\<close> makes in the serialised text.\<close>

definition format_arrays :: "string \<Rightarrow> string" where
  "format_arrays content =
     replace [bs, bs] ''/''
       (replace [dq, CHR '']''] [dq, CHR '','', nl, CHR '']'']
          (replace [dq, CHR '','', CHR '' '', dq] [dq, CHR '','', nl, tab, dq]
             (replace [CHR ''['', dq] [CHR ''['', nl, tab, dq] content)))"

text \<open>
  \<open>update_manifest(platforms)\<close>, on the wheels directory and the manifest file (the
  document parsed from it, \<open>None\<close> when the file does not exist): the text written to
  the manifest file and the wheels directory afterwards.
\<close>

definition update_manifest :: "ExtensionBuilder \<Rightarrow> string list \<Rightarrow> string list \<Rightarrow> toml_doc option
    \<Rightarrow> error + string \<times> string list" where
  "update_manifest b platforms listing manifest_file =
     (case get_platforms platforms of
        Inl e \<Rightarrow> Inl e
      | Inr platform_objects \<Rightarrow>
          (case filter_wheels b listing of
             (wheel_files, listing') \<Rightarrow>
               Inr (format_arrays
                      (dumps (manifest_document platform_objects wheel_files manifest_file)),
                    listing')))"

text \<open>
  A project whose descriptor has a \<open>[project]\<close> section without a \<open>dependencies\<close>
  key, and the builder the constructor makes of it.
\<close>

definition no_dependencies_tree :: source_tree where
  "no_dependencies_tree =
     \<lparr>dir_exists = True,
      entries = [(''pyproject.toml'', File),
                 (''test-extension'', Dir [''blender_manifest.toml''])],
      pyproject_read = Parsed \<lparr>project = Some \<lparr>dependencies = None\<rparr>,
                               tool_extbpy_platforms = None\<rparr>\<rparr>"

definition no_dependencies_builder :: ExtensionBuilder where
  "no_dependencies_builder =
     fixture_builder default_excluded_packages
       \<lparr>config_dependencies = [], config_platforms = None\<rparr>"

text \<open>
  Two manifests that differ in the value of \<open>tagline\<close>: the text
  \<open>"C:\\tools"\<close> (the string with one backslash) and the text \<open>"C:/tools"\<close>.
\<close>

definition manifest_with_backslash :: toml_doc where
  "manifest_with_backslash =
     [(''id'', Source ([dq] @ ''test-extension'' @ [dq])),
      (''tagline'', Source ([dq] @ ''C:'' @ [bs, bs] @ ''tools'' @ [dq]))]"

definition manifest_with_slash :: toml_doc where
  "manifest_with_slash =
     [(''id'', Source ([dq] @ ''test-extension'' @ [dq])),
      (''tagline'', Source ([dq] @ ''C:/tools'' @ [dq]))]"

text \<open>
  A run of the download command that finds nothing for Windows and fetches one wheel for
  any other platform.
\<close>

definition windows_fails :: pip where
  "windows_fails args listing =
     (if ''--platform=win_amd64'' \<in> set args
      then (Inl ''ERROR: No matching distribution found'', listing)
      else (Inr (), listing @ [''click-8.1.7-py3-none-any.whl'']))"

section \<open>Properties of the platform registry\<close>

lemma PLATFORMS_keys:
  "map fst PLATFORMS = [''windows-x64'', ''linux-x64'', ''macos-arm64'', ''macos-x64'']"
  by (simp add: PLATFORMS_def)

lemma PLATFORMS_name_is_key: "map_of PLATFORMS nm = Some p \<Longrightarrow> name p = nm"
  by (auto simp: PLATFORMS_def split: if_splits)

lemma PLATFORMS_metadata_is_key: "map_of PLATFORMS nm = Some p \<Longrightarrow> metadata p = nm"
  by (auto simp: PLATFORMS_def split: if_splits)

lemma registered_iff: "nm \<in> set list_available_platforms \<longleftrightarrow> map_of PLATFORMS nm \<noteq> None"
  by (simp add: list_available_platforms_def map_of_eq_None_iff)

text \<open>
  C6. For every registered name \<open>get_platform\<close> returns the registry's Platform, whose
  \<open>name\<close> field is the lookup key; for every other name it fails with a
  \<open>PlatformError\<close> whose message quotes the name and lists the four valid names. The
  registry holds exactly the four names, and it is a constant of the model.
\<close>

theorem get_platform_registry:
  "(\<forall>nm \<in> set list_available_platforms.
      \<exists>p. get_platform nm = Inr p \<and> name p = nm \<and> map_of PLATFORMS nm = Some p)
   \<and> (\<forall>nm. nm \<notin> set list_available_platforms \<longrightarrow>
         get_platform nm =
           Inl (PlatformError
             (''Unsupported platform '' @ [CHR 0x27] @ nm @ [CHR 0x27]
                @ ''. Available: windows-x64, linux-x64, macos-arm64, macos-x64'')))
   \<and> list_available_platforms = [''windows-x64'', ''linux-x64'', ''macos-arm64'', ''macos-x64'']"
proof (intro conjI ballI allI impI)
  fix nm assume "nm \<in> set list_available_platforms"
  then obtain p where p: "map_of PLATFORMS nm = Some p"
    by (auto simp: registered_iff)
  then show "\<exists>p. get_platform nm = Inr p \<and> name p = nm \<and> map_of PLATFORMS nm = Some p"
    by (simp add: get_platform_def PLATFORMS_name_is_key)
next
  fix nm assume "nm \<notin> set list_available_platforms"
  then have "map_of PLATFORMS nm = None"
    by (simp add: registered_iff)
  then show "get_platform nm =
           Inl (PlatformError
             (''Unsupported platform '' @ [CHR 0x27] @ nm @ [CHR 0x27]
                @ ''. Available: windows-x64, linux-x64, macos-arm64, macos-x64''))"
    by (simp add: get_platform_def PLATFORMS_keys)
next
  show "list_available_platforms = [''windows-x64'', ''linux-x64'', ''macos-arm64'', ''macos-x64'']"
    by (simp add: list_available_platforms_def PLATFORMS_keys)
qed

theorem get_platform_registry_witness:
  "''linux-x64'' \<in> set list_available_platforms
   \<and> (\<exists>p. get_platform ''linux-x64'' = Inr p \<and> name p = ''linux-x64'')
   \<and> ''linux-arm64'' \<notin> set list_available_platforms
   \<and> get_platform ''linux-arm64'' =
        Inl (PlatformError
          (''Unsupported platform '' @ [CHR 0x27] @ ''linux-arm64'' @ [CHR 0x27]
             @ ''. Available: windows-x64, linux-x64, macos-arm64, macos-x64''))"
proof -
  have a: "''linux-x64'' \<in> set list_available_platforms"
    by (simp add: list_available_platforms_def PLATFORMS_keys)
  have b: "''linux-arm64'' \<notin> set list_available_platforms"
    by (simp add: list_available_platforms_def PLATFORMS_keys)
  from get_platform_registry a b show ?thesis by blast
qed

section \<open>Platform auto-detection\<close>

text \<open>
  C3, at a concrete input: on macOS (\<open>Darwin\<close>) with a 32-bit Intel machine
  (\<open>i386\<close>) no logical platform matches the running system, and
  \<open>detect_current_platform\<close> still returns \<open>macos-x64\<close> instead of failing, where
  its linux and windows branches raise a \<open>PlatformError\<close> for a machine outside
  their list.
\<close>

theorem detect_current_platform_darwin_default:
  "spec_matching_platform ''Darwin'' ''i386'' = None
   \<and> detect_current_platform ''Darwin'' ''i386'' = Inr [''macos-x64'']"
  by code_simp

text \<open>
  The branches of \<open>detect_current_platform\<close>. For a supported combination it
  returns the single matching platform name. It fails with a \<open>PlatformError\<close> for
  every operating system other than darwin, linux and windows, and on linux and windows
  for every machine other than x86_64 and amd64. The darwin branch has no such check:
  whatever is not arm64 or aarch64 comes out as \<open>macos-x64\<close>.
\<close>

theorem detect_current_platform_cases:
  "(\<forall>sys mach n. spec_matching_platform sys mach = Some n \<longrightarrow>
      detect_current_platform sys mach = Inr [n])
   \<and> (\<forall>sys mach. spec_matching_platform sys mach = None \<and> lower sys \<noteq> ''darwin'' \<longrightarrow>
         (\<exists>msg. detect_current_platform sys mach = Inl (PlatformError msg)))
   \<and> (\<forall>sys mach. lower sys = ''darwin'' \<longrightarrow>
         detect_current_platform sys mach =
           Inr [if lower mach \<in> {''arm64'', ''aarch64''} then ''macos-arm64'' else ''macos-x64''])"
proof (intro conjI allI impI)
  fix sys mach n
  assume "spec_matching_platform sys mach = Some n"
  then show "detect_current_platform sys mach = Inr [n]"
    by (auto simp: spec_matching_platform_def detect_current_platform_def Let_def
        split: if_splits)
next
  fix sys mach
  assume "spec_matching_platform sys mach = None \<and> lower sys \<noteq> ''darwin''"
  then show "\<exists>msg. detect_current_platform sys mach = Inl (PlatformError msg)"
    by (auto simp: spec_matching_platform_def detect_current_platform_def Let_def
        split: if_splits)
next
  fix sys mach
  assume "lower sys = ''darwin''"
  then show "detect_current_platform sys mach =
           Inr [if lower mach \<in> {''arm64'', ''aarch64''} then ''macos-arm64'' else ''macos-x64'']"
    by (simp add: detect_current_platform_def Let_def)
qed

theorem detect_current_platform_cases_witness:
  "spec_matching_platform ''Windows'' ''AMD64'' = Some ''windows-x64''
   \<and> detect_current_platform ''Windows'' ''AMD64'' = Inr [''windows-x64'']
   \<and> spec_matching_platform ''Linux'' ''aarch64'' = None
   \<and> lower ''Linux'' \<noteq> ''darwin''
   \<and> (\<exists>msg. detect_current_platform ''Linux'' ''aarch64'' = Inl (PlatformError msg))
   \<and> lower ''Darwin'' = ''darwin''
   \<and> detect_current_platform ''Darwin'' ''arm64'' = Inr [''macos-arm64'']"
proof -
  have a: "spec_matching_platform ''Windows'' ''AMD64'' = Some ''windows-x64''"
    by code_simp
  have b: "spec_matching_platform ''Linux'' ''aarch64'' = None \<and> lower ''Linux'' \<noteq> ''darwin''"
    by code_simp
  have c: "lower ''Darwin'' = ''darwin''"
    by code_simp
  have d: "lower ''arm64'' \<in> {''arm64'', ''aarch64''}"
    by code_simp
  from detect_current_platform_cases a
  have 1: "detect_current_platform ''Windows'' ''AMD64'' = Inr [''windows-x64'']"
    by blast
  from detect_current_platform_cases b
  have 2: "\<exists>msg. detect_current_platform ''Linux'' ''aarch64'' = Inl (PlatformError msg)"
    by blast
  from detect_current_platform_cases c
  have "detect_current_platform ''Darwin'' ''arm64'' =
      Inr [if lower ''arm64'' \<in> {''arm64'', ''aarch64''} then ''macos-arm64'' else ''macos-x64'']"
    by blast
  with d have 3: "detect_current_platform ''Darwin'' ''arm64'' = Inr [''macos-arm64'']"
    by simp
  from a b c 1 2 3 show ?thesis by blast
qed

section \<open>The wheel matcher\<close>







section \<open>Initialisation of the builder\<close>

lemma first_manifest_dir_eq:
  "first_manifest_dir (entries t) = (case manifest_dirs t of [] \<Rightarrow> None | d # ds \<Rightarrow> Some d)"
proof -
  have "first_manifest_dir es =
     (case map fst (filter (\<lambda>(n, nd). case nd of File \<Rightarrow> False
                                 | Dir cs \<Rightarrow> ''blender_manifest.toml'' \<in> set cs) es) of
        [] \<Rightarrow> None | d # ds \<Rightarrow> Some d)" for es
    by (induction es rule: first_manifest_dir.induct) auto
  then show ?thesis by (simp add: manifest_dirs_def)
qed

lemma first_fallback_dir_eq:
  "first_fallback_dir [''extension'', ''addon'', ''warbler''] (entries t) =
     (case fallback_dirs t of [] \<Rightarrow> None | d # ds \<Rightarrow> Some d)"
proof -
  have "first_fallback_dir ns es =
     (case filter (\<lambda>n. case map_of es n of Some (Dir cs) \<Rightarrow> True | _ \<Rightarrow> False) ns of
        [] \<Rightarrow> None | d # ds \<Rightarrow> Some d)" for ns es
    by (induction ns) (auto split: option.splits node.splits)
  then show ?thesis by (simp add: fallback_dirs_def)
qed

lemma find_extension_dir_cases:
  "find_extension_dir src t =
     (case manifest_dirs t of
        d # ds \<Rightarrow> Inr (path_join src d)
      | [] \<Rightarrow> (case fallback_dirs t of
                 d # ds \<Rightarrow> Inr (path_join src d)
               | [] \<Rightarrow> Inl (ConfigurationError
                 (''No extension directory found in '' @ src
                    @ ''. Expected a directory containing blender_manifest.toml''))))"
  unfolding find_extension_dir_def first_manifest_dir_eq first_fallback_dir_eq
  by (simp split: list.splits)

lemma init_error_is_configuration:
  "init t cwd src out pyver excl = Inl e \<Longrightarrow> \<exists>msg. e = ConfigurationError msg"
  by (auto simp: init_def Let_def validate_source_dir_def find_extension_dir_def
      load_project_config_def split: sum.splits if_splits option.splits read_result.splits)

text \<open>
  C7, as stated, at a concrete input: the source directory holds the descriptor and two
  subdirectories \<open>a\<close> and \<open>b\<close>, each with a manifest. Initialisation succeeds, with
  the first of them as the extension directory.
\<close>

theorem init_two_manifest_dirs_succeeds:
  "manifest_dirs two_manifest_tree = [''a'', ''b'']
   \<and> map_sum id extension_dir (init two_manifest_tree ''/cwd'' ''/proj'' None ''3.11'' None)
       = Inr ''/proj/a''"
  by code_simp

lemma init_no_source_dir:
  "\<not> dir_exists t \<Longrightarrow>
   init t cwd src out pyver excl =
     Inl (ConfigurationError (''Source directory does not exist: '' @ src))"
  by (simp add: init_def validate_source_dir_def)

lemma init_no_pyproject:
  "dir_exists t \<and> ''pyproject.toml'' \<notin> fst ` set (entries t) \<Longrightarrow>
   init t cwd src out pyver excl =
     Inl (ConfigurationError (''No pyproject.toml found in '' @ src))"
  by (simp add: init_def validate_source_dir_def)

lemma init_no_extension_dir:
  "dir_exists t \<and> ''pyproject.toml'' \<in> fst ` set (entries t)
     \<and> manifest_dirs t = [] \<and> fallback_dirs t = [] \<Longrightarrow>
   init t cwd src out pyver excl =
     Inl (ConfigurationError
       (''No extension directory found in '' @ src
          @ ''. Expected a directory containing blender_manifest.toml''))"
  by (simp add: init_def validate_source_dir_def find_extension_dir_cases)

lemma init_success_needs:
  assumes ok: "init t cwd src out pyver excl = Inr b"
  shows "dir_exists t \<and> ''pyproject.toml'' \<in> fst ` set (entries t)
         \<and> (manifest_dirs t \<noteq> [] \<or> fallback_dirs t \<noteq> [])"
proof -
  from ok have v: "validate_source_dir src t = Inr ()"
    by (auto simp: init_def Let_def split: sum.splits)
  from ok obtain ext where ext: "find_extension_dir src t = Inr ext"
    by (auto simp: init_def Let_def split: sum.splits)
  from v have "dir_exists t \<and> ''pyproject.toml'' \<in> fst ` set (entries t)"
    by (auto simp: validate_source_dir_def split: if_splits)
  moreover from ext have "manifest_dirs t \<noteq> [] \<or> fallback_dirs t \<noteq> []"
    by (auto simp: find_extension_dir_cases)
  ultimately show ?thesis by simp
qed

lemma init_takes_first_manifest_dir:
  "dir_exists t \<and> ''pyproject.toml'' \<in> fst ` set (entries t)
     \<and> manifest_dirs t = d # ds
     \<and> pyproject_read t = Parsed config \<and> project config = Some pr \<Longrightarrow>
   \<exists>b. init t cwd src out pyver excl = Inr b \<and> extension_dir b = path_join src d"
  by (simp add: init_def Let_def validate_source_dir_def find_extension_dir_cases
      load_project_config_def)

text \<open>
  C7, amended. Initialisation fails with a configuration error naming the missing
  precondition when the source directory does not exist, when it holds no
  \<open>pyproject.toml\<close>, and when no subdirectory holds a manifest and none of
  \<open>extension\<close>, \<open>addon\<close>, \<open>warbler\<close> is a directory; every failure of the
  constructor is a configuration error, and a builder is constructed only when the three
  preconditions hold, with at least one manifest directory or fallback directory. When
  one or more subdirectories hold a manifest, the first in directory-listing order
  becomes the extension directory, and initialisation succeeds once the descriptor
  parses and has a \<open>[project]\<close> section.
\<close>

theorem init_preconditions:
  "(\<not> dir_exists t \<longrightarrow>
      init t cwd src out pyver excl =
        Inl (ConfigurationError (''Source directory does not exist: '' @ src)))
   \<and> (dir_exists t \<and> ''pyproject.toml'' \<notin> fst ` set (entries t) \<longrightarrow>
        init t cwd src out pyver excl =
          Inl (ConfigurationError (''No pyproject.toml found in '' @ src)))
   \<and> (dir_exists t \<and> ''pyproject.toml'' \<in> fst ` set (entries t)
        \<and> manifest_dirs t = [] \<and> fallback_dirs t = [] \<longrightarrow>
        init t cwd src out pyver excl =
          Inl (ConfigurationError
            (''No extension directory found in '' @ src
               @ ''. Expected a directory containing blender_manifest.toml'')))
   \<and> (\<forall>e. init t cwd src out pyver excl = Inl e \<longrightarrow> (\<exists>msg. e = ConfigurationError msg))
   \<and> (\<forall>b. init t cwd src out pyver excl = Inr b \<longrightarrow>
         dir_exists t \<and> ''pyproject.toml'' \<in> fst ` set (entries t)
         \<and> (manifest_dirs t \<noteq> [] \<or> fallback_dirs t \<noteq> []))
   \<and> (\<forall>d ds config pr.
         dir_exists t \<and> ''pyproject.toml'' \<in> fst ` set (entries t)
         \<and> manifest_dirs t = d # ds
         \<and> pyproject_read t = Parsed config \<and> project config = Some pr \<longrightarrow>
         (\<exists>b. init t cwd src out pyver excl = Inr b \<and> extension_dir b = path_join src d))"
proof -
  have 1: "\<not> dir_exists t \<longrightarrow>
      init t cwd src out pyver excl =
        Inl (ConfigurationError (''Source directory does not exist: '' @ src))"
    by (rule impI) (rule init_no_source_dir)
  have 2: "dir_exists t \<and> ''pyproject.toml'' \<notin> fst ` set (entries t) \<longrightarrow>
        init t cwd src out pyver excl =
          Inl (ConfigurationError (''No pyproject.toml found in '' @ src))"
    by (rule impI) (rule init_no_pyproject)
  have 3: "dir_exists t \<and> ''pyproject.toml'' \<in> fst ` set (entries t)
        \<and> manifest_dirs t = [] \<and> fallback_dirs t = [] \<longrightarrow>
        init t cwd src out pyver excl =
          Inl (ConfigurationError
            (''No extension directory found in '' @ src
               @ ''. Expected a directory containing blender_manifest.toml''))"
    by (rule impI) (rule init_no_extension_dir)
  have 4: "\<forall>e. init t cwd src out pyver excl = Inl e \<longrightarrow> (\<exists>msg. e = ConfigurationError msg)"
    by (intro allI impI) (rule init_error_is_configuration)
  have 5: "\<forall>b. init t cwd src out pyver excl = Inr b \<longrightarrow>
         dir_exists t \<and> ''pyproject.toml'' \<in> fst ` set (entries t)
         \<and> (manifest_dirs t \<noteq> [] \<or> fallback_dirs t \<noteq> [])"
    by (intro allI impI) (rule init_success_needs)
  have 6: "\<forall>d ds config pr.
         dir_exists t \<and> ''pyproject.toml'' \<in> fst ` set (entries t)
         \<and> manifest_dirs t = d # ds
         \<and> pyproject_read t = Parsed config \<and> project config = Some pr \<longrightarrow>
         (\<exists>b. init t cwd src out pyver excl = Inr b \<and> extension_dir b = path_join src d)"
    by (intro allI impI) (rule init_takes_first_manifest_dir)
  from 1 2 3 4 5 6 show ?thesis by (intro conjI)
qed


theorem init_preconditions_witness:
  "map_sum id extension_dir (init fixture_tree ''/cwd'' ''/proj'' None ''3.11'' None)
      = Inr ''/proj/test-extension''
   \<and> dir_exists fixture_tree \<and> ''pyproject.toml'' \<in> fst ` set (entries fixture_tree)
   \<and> manifest_dirs fixture_tree = [''test-extension'']
   \<and> init (fixture_tree\<lparr>dir_exists := False\<rparr>) ''/cwd'' ''/proj'' None ''3.11'' None
       = Inl (ConfigurationError (''Source directory does not exist: '' @ ''/proj''))
   \<and> init (fixture_tree\<lparr>entries := []\<rparr>) ''/cwd'' ''/proj'' None ''3.11'' None
       = Inl (ConfigurationError (''No pyproject.toml found in '' @ ''/proj''))
   \<and> init (fixture_tree\<lparr>entries := [(''pyproject.toml'', File)]\<rparr>) ''/cwd'' ''/proj'' None ''3.11'' None
       = Inl (ConfigurationError
           (''No extension directory found in '' @ ''/proj''
               @ ''. Expected a directory containing blender_manifest.toml''))"
proof -
  let ?cfg = "\<lparr>project = Some \<lparr>dependencies = Some [''click>=8.0.0'', ''rich>=13.0.0'']\<rparr>,
                tool_extbpy_platforms = Some [''windows-x64'', ''linux-x64'']\<rparr>"
  have pre: "dir_exists fixture_tree \<and> ''pyproject.toml'' \<in> fst ` set (entries fixture_tree)
      \<and> manifest_dirs fixture_tree = [''test-extension'']"
    by code_simp
  have rd: "pyproject_read fixture_tree = Parsed ?cfg
      \<and> project ?cfg = Some \<lparr>dependencies = Some [''click>=8.0.0'', ''rich>=13.0.0'']\<rparr>"
    by (simp add: fixture_tree_def)
  note P = init_preconditions [of fixture_tree "''/cwd''" "''/proj''" None "''3.11''" None]
  note P6 = P [THEN conjunct2, THEN conjunct2, THEN conjunct2, THEN conjunct2, THEN conjunct2,
      THEN spec, THEN spec, THEN spec, THEN spec, THEN mp]
  from pre rd have "\<exists>b. init fixture_tree ''/cwd'' ''/proj'' None ''3.11'' None = Inr b
      \<and> extension_dir b = path_join ''/proj'' ''test-extension''"
    by (intro P6) blast
  then obtain b where b: "init fixture_tree ''/cwd'' ''/proj'' None ''3.11'' None = Inr b"
    "extension_dir b = path_join ''/proj'' ''test-extension''"
    by blast
  have pj: "path_join ''/proj'' ''test-extension'' = ''/proj/test-extension''"
    by (simp add: path_join_def)
  from b pj have 1: "map_sum id extension_dir (init fixture_tree ''/cwd'' ''/proj'' None ''3.11'' None)
      = Inr ''/proj/test-extension''"
    by simp
  have h2: "\<not> dir_exists (fixture_tree\<lparr>dir_exists := False\<rparr>)" by simp
  have 2: "init (fixture_tree\<lparr>dir_exists := False\<rparr>) ''/cwd'' ''/proj'' None ''3.11'' None
       = Inl (ConfigurationError (''Source directory does not exist: '' @ ''/proj''))"
    by (rule init_preconditions [of "fixture_tree\<lparr>dir_exists := False\<rparr>" "''/cwd''" "''/proj''"
          None "''3.11''" None, THEN conjunct1, THEN mp]) (rule h2)
  have h3: "dir_exists (fixture_tree\<lparr>entries := []\<rparr>)
      \<and> ''pyproject.toml'' \<notin> fst ` set (entries (fixture_tree\<lparr>entries := []\<rparr>))"
    by (simp add: fixture_tree_def)
  have 3: "init (fixture_tree\<lparr>entries := []\<rparr>) ''/cwd'' ''/proj'' None ''3.11'' None
       = Inl (ConfigurationError (''No pyproject.toml found in '' @ ''/proj''))"
    by (rule init_preconditions [of "fixture_tree\<lparr>entries := []\<rparr>" "''/cwd''" "''/proj''"
          None "''3.11''" None, THEN conjunct2, THEN conjunct1, THEN mp]) (rule h3)
  have h4: "dir_exists (fixture_tree\<lparr>entries := [(''pyproject.toml'', File)]\<rparr>)
      \<and> ''pyproject.toml'' \<in> fst ` set (entries (fixture_tree\<lparr>entries := [(''pyproject.toml'', File)]\<rparr>))
      \<and> manifest_dirs (fixture_tree\<lparr>entries := [(''pyproject.toml'', File)]\<rparr>) = []
      \<and> fallback_dirs (fixture_tree\<lparr>entries := [(''pyproject.toml'', File)]\<rparr>) = []"
    by (simp add: fixture_tree_def manifest_dirs_def fallback_dirs_def)
  have 4: "init (fixture_tree\<lparr>entries := [(''pyproject.toml'', File)]\<rparr>) ''/cwd'' ''/proj'' None ''3.11'' None
       = Inl (ConfigurationError
           (''No extension directory found in '' @ ''/proj''
               @ ''. Expected a directory containing blender_manifest.toml''))"
    by (rule init_preconditions [of "fixture_tree\<lparr>entries := [(''pyproject.toml'', File)]\<rparr>"
          "''/cwd''" "''/proj''" None "''3.11''" None,
          THEN conjunct2, THEN conjunct2, THEN conjunct1, THEN mp]) (rule h4)
  from 1 pre 2 3 4 show ?thesis by (intro conjI) (elim conjE, assumption)+
qed

section \<open>The excluded packages of a builder\<close>

lemma init_empty_excluded_is_default:
  "init t cwd src out pyver (Some {}) = init t cwd src out pyver None"
  by (simp add: init_def)

lemma init_excluded_packages:
  "init t cwd src out pyver excl = Inr b \<Longrightarrow>
   excluded_packages b =
     (case excl of None \<Rightarrow> default_excluded_packages
      | Some s \<Rightarrow> if s = {} then default_excluded_packages else s)"
  by (auto simp: init_def Let_def split: sum.splits)

lemma default_excluded_packages_nonempty: "default_excluded_packages \<noteq> {}"
  by (simp add: default_excluded_packages_def)

text \<open>
  C9. A constructor call with \<open>excluded_packages\<close> given as the empty set behaves as
  the call with \<open>None\<close>: the builder gets the default exclusion set (pyarrow, certifi,
  charset_normalizer, idna, numpy, requests, urllib3). A non-empty set is taken as
  given, so no constructor call yields a builder with an empty exclusion set.
\<close>

theorem init_excluded_empty_set:
  "init t cwd src out pyver (Some {}) = init t cwd src out pyver None
   \<and> (\<forall>b. init t cwd src out pyver (Some {}) = Inr b \<longrightarrow>
         excluded_packages b = default_excluded_packages)
   \<and> (\<forall>b. init t cwd src out pyver None = Inr b \<longrightarrow>
         excluded_packages b = default_excluded_packages)
   \<and> (\<forall>s b. s \<noteq> {} \<and> init t cwd src out pyver (Some s) = Inr b \<longrightarrow>
         excluded_packages b = s)
   \<and> (\<forall>excl b. init t cwd src out pyver excl = Inr b \<longrightarrow> excluded_packages b \<noteq> {})"
proof -
  have 1: "\<forall>b. init t cwd src out pyver (Some {}) = Inr b \<longrightarrow>
         excluded_packages b = default_excluded_packages"
    by (auto dest: init_excluded_packages)
  have 2: "\<forall>b. init t cwd src out pyver None = Inr b \<longrightarrow>
         excluded_packages b = default_excluded_packages"
    by (auto dest: init_excluded_packages)
  have 3: "\<forall>s b. s \<noteq> {} \<and> init t cwd src out pyver (Some s) = Inr b \<longrightarrow>
         excluded_packages b = s"
    by (intro allI impI, elim conjE, drule init_excluded_packages, simp)
  have 4: "\<forall>excl b. init t cwd src out pyver excl = Inr b \<longrightarrow> excluded_packages b \<noteq> {}"
  proof (intro allI impI)
    fix excl b
    assume "init t cwd src out pyver excl = Inr b"
    then have e: "excluded_packages b =
        (case excl of None \<Rightarrow> default_excluded_packages
         | Some s \<Rightarrow> if s = {} then default_excluded_packages else s)"
      by (rule init_excluded_packages)
    show "excluded_packages b \<noteq> {}"
    proof (cases excl)
      case None
      with e show ?thesis by (simp add: default_excluded_packages_nonempty)
    next
      case (Some s)
      with e show ?thesis by (cases "s = {}") (simp_all add: default_excluded_packages_nonempty)
    qed
  qed
  from init_empty_excluded_is_default 1 2 3 4 show ?thesis by (intro conjI)
qed

theorem init_excluded_empty_set_witness:
  "init fixture_tree ''/cwd'' ''/proj'' None ''3.11'' (Some {}) =
     Inr (fixture_builder default_excluded_packages
           \<lparr>config_dependencies = [''click>=8.0.0'', ''rich>=13.0.0''],
            config_platforms = Some [''windows-x64'', ''linux-x64'']\<rparr>)
   \<and> excluded_packages (fixture_builder default_excluded_packages
           \<lparr>config_dependencies = [''click>=8.0.0'', ''rich>=13.0.0''],
            config_platforms = Some [''windows-x64'', ''linux-x64'']\<rparr>)
       = default_excluded_packages
   \<and> {''custom-package''} \<noteq> ({} :: string set)
   \<and> init fixture_tree ''/cwd'' ''/proj'' None ''3.11'' (Some {''custom-package''}) =
     Inr (fixture_builder {''custom-package''}
           \<lparr>config_dependencies = [''click>=8.0.0'', ''rich>=13.0.0''],
            config_platforms = Some [''windows-x64'', ''linux-x64'']\<rparr>)
   \<and> excluded_packages (fixture_builder {''custom-package''}
           \<lparr>config_dependencies = [''click>=8.0.0'', ''rich>=13.0.0''],
            config_platforms = Some [''windows-x64'', ''linux-x64'']\<rparr>)
       = {''custom-package''}"
proof -
  let ?cfg = "\<lparr>config_dependencies = [''click>=8.0.0'', ''rich>=13.0.0''],
            config_platforms = Some [''windows-x64'', ''linux-x64'']\<rparr>"
  have a: "init fixture_tree ''/cwd'' ''/proj'' None ''3.11'' (Some {}) =
     Inr (fixture_builder default_excluded_packages ?cfg)"
    by (simp add: init_def fixture_tree_def fixture_builder_def validate_source_dir_def
        find_extension_dir_def load_project_config_def path_join_def)
  have b: "init fixture_tree ''/cwd'' ''/proj'' None ''3.11'' (Some {''custom-package''}) =
     Inr (fixture_builder {''custom-package''} ?cfg)"
    by (simp add: init_def fixture_tree_def fixture_builder_def validate_source_dir_def
        find_extension_dir_def load_project_config_def path_join_def)
  note T = init_excluded_empty_set [of fixture_tree "''/cwd''" "''/proj''" None "''3.11''"]
  have c: "excluded_packages (fixture_builder default_excluded_packages ?cfg)
      = default_excluded_packages"
    by (rule T [THEN conjunct2, THEN conjunct1, THEN spec, THEN mp]) (rule a)
  have ne: "{''custom-package''} \<noteq> ({} :: string set)" by simp
  have d: "excluded_packages (fixture_builder {''custom-package''} ?cfg)
      = {''custom-package''}"
    by (rule T [THEN conjunct2, THEN conjunct2, THEN conjunct2, THEN conjunct1,
          THEN spec, THEN spec, THEN mp]) (intro conjI ne b)
  from a c ne b d show ?thesis by (intro conjI)
qed

section \<open>Substrings\<close>

lemma str_in_iff_sublist: "str_in pat s \<longleftrightarrow> sublist pat s"
  by (induction s) (auto simp: sublist_Cons_right)

lemma str_in_join: "x \<in> set xs \<Longrightarrow> str_in x (join sep xs)"
proof (induction sep xs rule: join.induct)
  case (1 sep)
  then show ?case by simp
next
  case (2 sep y)
  then show ?case by (simp add: str_in_iff_sublist)
next
  case (3 sep y z zs)
  show ?case
  proof (cases "x = y")
    case True
    then show ?thesis
      by (simp add: str_in_iff_sublist)
  next
    case False
    with 3 have "sublist x (join sep (z # zs))"
      by (simp add: str_in_iff_sublist)
    then show ?thesis
      by (simp add: str_in_iff_sublist sublist_append)
  qed
qed

lemma str_in_append_left: "str_in x s \<Longrightarrow> str_in x (p @ s)"
  by (simp add: str_in_iff_sublist sublist_append)

section \<open>The configured platforms\<close>

lemma get_configured_platforms_unset:
  "config_platforms (project_config b) = None \<Longrightarrow> get_configured_platforms b = Inr []"
  by (simp add: get_configured_platforms_def)

lemma get_configured_platforms_valid:
  "config_platforms (project_config b) = Some ps \<and> set ps \<subseteq> set list_available_platforms
   \<Longrightarrow> get_configured_platforms b = Inr ps"
  by (auto simp: get_configured_platforms_def Let_def filter_empty_conv)

lemma get_configured_platforms_invalid:
  assumes "config_platforms (project_config b) = Some ps \<and> \<not> set ps \<subseteq> set list_available_platforms"
  shows "get_configured_platforms b =
           Inl (ConfigurationError
             (''Invalid platforms: ''
                @ join '', '' (filter (\<lambda>p. p \<notin> set list_available_platforms) ps)))
         \<and> (\<forall>p \<in> set ps. p \<notin> set list_available_platforms \<longrightarrow>
               str_in p (''Invalid platforms: ''
                 @ join '', '' (filter (\<lambda>p. p \<notin> set list_available_platforms) ps)))"
proof
  from assms have "filter (\<lambda>p. p \<notin> set list_available_platforms) ps \<noteq> []"
    by (auto simp: filter_empty_conv)
  with assms show "get_configured_platforms b =
           Inl (ConfigurationError
             (''Invalid platforms: ''
                @ join '', '' (filter (\<lambda>p. p \<notin> set list_available_platforms) ps)))"
    by (simp add: get_configured_platforms_def Let_def)
next
  show "\<forall>p \<in> set ps. p \<notin> set list_available_platforms \<longrightarrow>
               str_in p (''Invalid platforms: ''
                 @ join '', '' (filter (\<lambda>p. p \<notin> set list_available_platforms) ps))"
  proof (intro ballI impI)
    fix p assume "p \<in> set ps" "p \<notin> set list_available_platforms"
    then have "p \<in> set (filter (\<lambda>p. p \<notin> set list_available_platforms) ps)"
      by simp
    then have "str_in p (join '', '' (filter (\<lambda>p. p \<notin> set list_available_platforms) ps))"
      by (rule str_in_join)
    then show "str_in p (''Invalid platforms: ''
                 @ join '', '' (filter (\<lambda>p. p \<notin> set list_available_platforms) ps))"
      by (rule str_in_append_left)
  qed
qed

text \<open>
  C8. \<open>get_configured_platforms\<close> returns the empty list when the descriptor has no
  platform list; when every listed name is in the platform registry it returns the list
  as configured; when some name is not, it fails with a configuration error whose
  message starts with "Invalid platforms" and contains every unknown name.
\<close>

theorem get_configured_platforms_cases:
  "(config_platforms (project_config b) = None \<longrightarrow> get_configured_platforms b = Inr [])
   \<and> (\<forall>ps. config_platforms (project_config b) = Some ps
            \<and> set ps \<subseteq> set list_available_platforms \<longrightarrow>
          get_configured_platforms b = Inr ps)
   \<and> (\<forall>ps. config_platforms (project_config b) = Some ps
            \<and> \<not> set ps \<subseteq> set list_available_platforms \<longrightarrow>
          get_configured_platforms b =
            Inl (ConfigurationError
              (''Invalid platforms: ''
                 @ join '', '' (filter (\<lambda>p. p \<notin> set list_available_platforms) ps)))
          \<and> (\<forall>p \<in> set ps. p \<notin> set list_available_platforms \<longrightarrow>
                str_in p (''Invalid platforms: ''
                  @ join '', '' (filter (\<lambda>p. p \<notin> set list_available_platforms) ps))))"
proof -
  have 1: "config_platforms (project_config b) = None \<longrightarrow> get_configured_platforms b = Inr []"
    by (rule impI) (rule get_configured_platforms_unset)
  have 2: "\<forall>ps. config_platforms (project_config b) = Some ps
            \<and> set ps \<subseteq> set list_available_platforms \<longrightarrow>
          get_configured_platforms b = Inr ps"
    by (intro allI impI) (rule get_configured_platforms_valid)
  have 3: "\<forall>ps. config_platforms (project_config b) = Some ps
            \<and> \<not> set ps \<subseteq> set list_available_platforms \<longrightarrow>
          get_configured_platforms b =
            Inl (ConfigurationError
              (''Invalid platforms: ''
                 @ join '', '' (filter (\<lambda>p. p \<notin> set list_available_platforms) ps)))
          \<and> (\<forall>p \<in> set ps. p \<notin> set list_available_platforms \<longrightarrow>
                str_in p (''Invalid platforms: ''
                  @ join '', '' (filter (\<lambda>p. p \<notin> set list_available_platforms) ps)))"
    by (intro allI impI) (rule get_configured_platforms_invalid)
  from 1 2 3 show ?thesis by (intro conjI)
qed

theorem get_configured_platforms_cases_witness:
  "get_configured_platforms
       (fixture_builder default_excluded_packages
          \<lparr>config_dependencies = [''click>=8.0.0''], config_platforms = None\<rparr>) = Inr []
   \<and> get_configured_platforms
       (fixture_builder default_excluded_packages
          \<lparr>config_dependencies = [''click>=8.0.0'', ''rich>=13.0.0''],
           config_platforms = Some [''windows-x64'', ''linux-x64'']\<rparr>)
       = Inr [''windows-x64'', ''linux-x64'']
   \<and> get_configured_platforms
       (fixture_builder default_excluded_packages
          \<lparr>config_dependencies = [], config_platforms = Some [''invalid-platform'']\<rparr>)
       = Inl (ConfigurationError ''Invalid platforms: invalid-platform'')
   \<and> str_in ''invalid-platform'' ''Invalid platforms: invalid-platform''"
proof -
  let ?b1 = "fixture_builder default_excluded_packages
          \<lparr>config_dependencies = [''click>=8.0.0''], config_platforms = None\<rparr>"
  let ?b2 = "fixture_builder default_excluded_packages
          \<lparr>config_dependencies = [''click>=8.0.0'', ''rich>=13.0.0''],
           config_platforms = Some [''windows-x64'', ''linux-x64'']\<rparr>"
  let ?b3 = "fixture_builder default_excluded_packages
          \<lparr>config_dependencies = [], config_platforms = Some [''invalid-platform'']\<rparr>"
  have h1: "config_platforms (project_config ?b1) = None"
    by (simp add: fixture_builder_def)
  have h2: "config_platforms (project_config ?b2) = Some [''windows-x64'', ''linux-x64'']
      \<and> set [''windows-x64'', ''linux-x64''] \<subseteq> set list_available_platforms"
    by (simp add: fixture_builder_def list_available_platforms_def PLATFORMS_keys)
  have h3: "config_platforms (project_config ?b3) = Some [''invalid-platform'']
      \<and> \<not> set [''invalid-platform''] \<subseteq> set list_available_platforms"
    by (simp add: fixture_builder_def list_available_platforms_def PLATFORMS_keys)
  have m: "''Invalid platforms: ''
        @ join '', '' (filter (\<lambda>p. p \<notin> set list_available_platforms) [''invalid-platform''])
      = ''Invalid platforms: invalid-platform''"
    by (simp add: list_available_platforms_def PLATFORMS_keys)
  have 1: "get_configured_platforms ?b1 = Inr []"
    by (rule get_configured_platforms_cases [of ?b1, THEN conjunct1, THEN mp]) (rule h1)
  have 2: "get_configured_platforms ?b2 = Inr [''windows-x64'', ''linux-x64'']"
    by (rule get_configured_platforms_cases [of ?b2, THEN conjunct2, THEN conjunct1,
          THEN spec, THEN mp]) (rule h2)
  note 3 = get_configured_platforms_cases [of ?b3, THEN conjunct2, THEN conjunct2,
          THEN spec, THEN mp, OF h3]
  from 3 have 4: "get_configured_platforms ?b3
       = Inl (ConfigurationError ''Invalid platforms: invalid-platform'')"
    unfolding m by (rule conjunct1)
  from 3 have "\<forall>p \<in> set [''invalid-platform'']. p \<notin> set list_available_platforms \<longrightarrow>
      str_in p ''Invalid platforms: invalid-platform''"
    unfolding m by (rule conjunct2)
  with h3 have 5: "str_in ''invalid-platform'' ''Invalid platforms: invalid-platform''"
    by simp
  from 1 2 4 5 show ?thesis by (intro conjI)
qed

section \<open>Filtering the wheels\<close>

lemma should_exclude_iff_sublist:
  "should_exclude excluded whl \<longleftrightarrow> (\<exists>pkg \<in> excluded. sublist (lower pkg) (lower whl))"
  by (simp add: should_exclude_def str_in_iff_sublist)

lemma filter_wheels_kept:
  "fst (filter_wheels b listing) =
     filter (\<lambda>whl. \<not> should_exclude (excluded_packages b) whl) (sort (glob_whl listing))"
  by (simp add: filter_wheels_def Let_def)

lemma filter_wheels_listing:
  "snd (filter_wheels b listing) =
     filter (\<lambda>f. \<not> (suffix ''.whl'' f \<and> should_exclude (excluded_packages b) f)) listing"
  by (auto simp: filter_wheels_def Let_def glob_whl_def intro!: filter_cong)

lemma filter_wheels_kept_set:
  "set (fst (filter_wheels b listing)) =
     {whl \<in> set listing. suffix ''.whl'' whl \<and> \<not> should_exclude (excluded_packages b) whl}"
  by (auto simp: filter_wheels_kept glob_whl_def)

lemma filter_wheels_listing_set:
  "set (snd (filter_wheels b listing)) =
     set listing - {whl \<in> set listing. suffix ''.whl'' whl \<and> should_exclude (excluded_packages b) whl}"
  by (auto simp: filter_wheels_listing)

lemma filter_wheels_two:
  assumes "suffix ''.whl'' x" "suffix ''.whl'' y"
    and "should_exclude (excluded_packages b) x" "\<not> should_exclude (excluded_packages b) y"
  shows "filter_wheels b [x, y] = ([y], [y])" and "filter_wheels b [y, x] = ([y], [y])"
  using assms by (auto simp: filter_wheels_def Let_def glob_whl_def)

text \<open>
  C4. \<open>_filter_wheels\<close> takes the \<open>.whl\<close> files of the wheels directory, sorted,
  and splits them by \<open>should_exclude\<close>, which holds exactly when the lower-cased name
  of some excluded package occurs in the lower-cased file name. It returns the files that
  are not excluded; afterwards the directory holds what it held before without the
  excluded wheels, so every returned file is still there and no excluded wheel is. With
  one excluded wheel and one kept wheel in the directory, in either order, the result is
  the one-element list of the kept wheel and the directory holds that file alone.
\<close>

theorem filter_wheels_partition:
  "fst (filter_wheels b listing) =
     filter (\<lambda>whl. \<not> should_exclude (excluded_packages b) whl) (sort (glob_whl listing))
   \<and> snd (filter_wheels b listing) =
     filter (\<lambda>f. \<not> (suffix ''.whl'' f \<and> should_exclude (excluded_packages b) f)) listing
   \<and> set (fst (filter_wheels b listing)) =
     {whl \<in> set listing. suffix ''.whl'' whl \<and> \<not> should_exclude (excluded_packages b) whl}
   \<and> set (snd (filter_wheels b listing)) =
     set listing - {whl \<in> set listing. suffix ''.whl'' whl \<and> should_exclude (excluded_packages b) whl}
   \<and> set (fst (filter_wheels b listing)) \<subseteq> set (snd (filter_wheels b listing))
   \<and> (\<forall>whl. should_exclude (excluded_packages b) whl \<longleftrightarrow>
         (\<exists>pkg \<in> excluded_packages b. sublist (lower pkg) (lower whl)))
   \<and> (\<forall>x y. suffix ''.whl'' x \<and> suffix ''.whl'' y
         \<and> should_exclude (excluded_packages b) x \<and> \<not> should_exclude (excluded_packages b) y \<longrightarrow>
         filter_wheels b [x, y] = ([y], [y]) \<and> filter_wheels b [y, x] = ([y], [y]))"
proof -
  have 5: "set (fst (filter_wheels b listing)) \<subseteq> set (snd (filter_wheels b listing))"
    unfolding filter_wheels_kept_set filter_wheels_listing_set by blast
  have 6: "\<forall>whl. should_exclude (excluded_packages b) whl \<longleftrightarrow>
         (\<exists>pkg \<in> excluded_packages b. sublist (lower pkg) (lower whl))"
    by (rule allI) (rule should_exclude_iff_sublist)
  have 7: "\<forall>x y. suffix ''.whl'' x \<and> suffix ''.whl'' y
         \<and> should_exclude (excluded_packages b) x \<and> \<not> should_exclude (excluded_packages b) y \<longrightarrow>
         filter_wheels b [x, y] = ([y], [y]) \<and> filter_wheels b [y, x] = ([y], [y])"
    using filter_wheels_two by blast
  from filter_wheels_kept filter_wheels_listing filter_wheels_kept_set
    filter_wheels_listing_set 5 6 7
  show ?thesis by (intro conjI)
qed

theorem filter_wheels_partition_witness:
  "suffix ''.whl'' ''NumPy-1.26.4-cp311-cp311-win_amd64.whl''
   \<and> suffix ''.whl'' ''click-8.1.7-py3-none-any.whl''
   \<and> should_exclude default_excluded_packages ''NumPy-1.26.4-cp311-cp311-win_amd64.whl''
   \<and> \<not> should_exclude default_excluded_packages ''click-8.1.7-py3-none-any.whl''
   \<and> filter_wheels
        (fixture_builder default_excluded_packages
           \<lparr>config_dependencies = [''click>=8.0.0''], config_platforms = None\<rparr>)
        [''NumPy-1.26.4-cp311-cp311-win_amd64.whl'', ''click-8.1.7-py3-none-any.whl'']
       = ([''click-8.1.7-py3-none-any.whl''], [''click-8.1.7-py3-none-any.whl''])"
proof -
  let ?b = "fixture_builder default_excluded_packages
           \<lparr>config_dependencies = [''click>=8.0.0''], config_platforms = None\<rparr>"
  have e: "excluded_packages ?b = default_excluded_packages"
    by (simp add: fixture_builder_def)
  have h: "suffix ''.whl'' ''NumPy-1.26.4-cp311-cp311-win_amd64.whl''
      \<and> suffix ''.whl'' ''click-8.1.7-py3-none-any.whl''
      \<and> should_exclude default_excluded_packages ''NumPy-1.26.4-cp311-cp311-win_amd64.whl''
      \<and> \<not> should_exclude default_excluded_packages ''click-8.1.7-py3-none-any.whl''"
    by code_simp
  note T = filter_wheels_partition [of ?b "[]", THEN conjunct2, THEN conjunct2, THEN conjunct2,
      THEN conjunct2, THEN conjunct2, THEN conjunct2, THEN spec, THEN spec, THEN mp,
      unfolded e, OF h, THEN conjunct1]
  from h T show ?thesis by (intro conjI) (elim conjE, assumption)+
qed

section \<open>The order of the kept wheels\<close>

lemma filter_wheels_sorted: "sorted (fst (filter_wheels b listing))"
  by (simp add: filter_wheels_kept sorted_wrt_filter)

lemma sort_glob_whl_permutation:
  assumes "mset listing2 = mset listing"
  shows "sort (glob_whl listing2) = sort (glob_whl listing)"
proof -
  from assms have "mset (glob_whl listing) = mset (glob_whl listing2)"
    by (simp add: glob_whl_def)
  then have "mset (sort (glob_whl listing)) = mset (glob_whl listing2)"
    by simp
  then show ?thesis
    by (rule properties_for_sort) simp
qed

lemma filter_wheels_permutation:
  assumes "mset listing2 = mset listing"
  shows "fst (filter_wheels b listing2) = fst (filter_wheels b listing)"
proof -
  from assms have "sort (glob_whl listing2) = sort (glob_whl listing)"
    by (rule sort_glob_whl_permutation)
  then show ?thesis
    by (simp only: filter_wheels_kept)
qed

lemma sorted_map_prefix: "sorted (map (\<lambda>x. p @ x) xs) = sorted (xs :: string list)"
  by (induction p) (simp_all add: sorted_map)

lemma wheel_paths_sorted: "sorted wheel_files \<Longrightarrow> sorted (wheel_paths wheel_files)"
  unfolding wheel_paths_def by (simp only: sorted_map_prefix)

lemma map_of_set_item:
  "map_of (set_item doc key v) k = (if k = key then Some v else map_of doc k)"
  by (induction doc key v rule: set_item.induct) auto

lemma manifest_document_wheels:
  "map_of (manifest_document platform_objects wheel_files manifest_file) ''wheels''
     = Some (Strings (wheel_paths wheel_files))"
  by (simp add: manifest_document_def Let_def map_of_set_item)

lemma update_manifest_document:
  "get_platforms platforms = Inr platform_objects \<Longrightarrow>
   update_manifest b platforms listing manifest_file =
     Inr (format_arrays
            (dumps (manifest_document platform_objects (fst (filter_wheels b listing)) manifest_file)),
          snd (filter_wheels b listing))"
  by (simp add: update_manifest_def split: prod.splits)

text \<open>
  C10. The list \<open>_filter_wheels\<close> returns is sorted in the lexicographic order of the
  file names, and it is the same for any two listings of the same directory contents,
  whatever the order of enumeration. The \<open>wheel_paths\<close> list that
  \<open>update_manifest\<close> builds from it and assigns to the \<open>wheels\<close> key of the
  manifest document is sorted as well.
\<close>

theorem filter_wheels_lexicographic:
  "sorted (fst (filter_wheels b listing))
   \<and> (\<forall>listing2. mset listing2 = mset listing \<longrightarrow>
         fst (filter_wheels b listing2) = fst (filter_wheels b listing))
   \<and> sorted (wheel_paths (fst (filter_wheels b listing)))
   \<and> (\<forall>platforms platform_objects manifest_file.
         get_platforms platforms = Inr platform_objects \<longrightarrow>
         update_manifest b platforms listing manifest_file =
           Inr (format_arrays
                  (dumps (manifest_document platform_objects
                            (fst (filter_wheels b listing)) manifest_file)),
                snd (filter_wheels b listing))
         \<and> map_of (manifest_document platform_objects
                      (fst (filter_wheels b listing)) manifest_file) ''wheels''
             = Some (Strings (wheel_paths (fst (filter_wheels b listing)))))"
proof -
  have 2: "\<forall>listing2. mset listing2 = mset listing \<longrightarrow>
         fst (filter_wheels b listing2) = fst (filter_wheels b listing)"
    by (intro allI impI) (rule filter_wheels_permutation)
  have 3: "sorted (wheel_paths (fst (filter_wheels b listing)))"
    by (rule wheel_paths_sorted) (rule filter_wheels_sorted)
  have 4: "\<forall>platforms platform_objects manifest_file.
         get_platforms platforms = Inr platform_objects \<longrightarrow>
         update_manifest b platforms listing manifest_file =
           Inr (format_arrays
                  (dumps (manifest_document platform_objects
                            (fst (filter_wheels b listing)) manifest_file)),
                snd (filter_wheels b listing))
         \<and> map_of (manifest_document platform_objects
                      (fst (filter_wheels b listing)) manifest_file) ''wheels''
             = Some (Strings (wheel_paths (fst (filter_wheels b listing))))"
  proof (intro allI impI)
    fix platforms platform_objects manifest_file
    assume g: "get_platforms platforms = Inr platform_objects"
    have "update_manifest b platforms listing manifest_file =
           Inr (format_arrays
                  (dumps (manifest_document platform_objects
                            (fst (filter_wheels b listing)) manifest_file)),
                snd (filter_wheels b listing))"
      using g by (rule update_manifest_document)
    moreover have "map_of (manifest_document platform_objects
                      (fst (filter_wheels b listing)) manifest_file) ''wheels''
             = Some (Strings (wheel_paths (fst (filter_wheels b listing))))"
      by (rule manifest_document_wheels)
    ultimately show "update_manifest b platforms listing manifest_file =
           Inr (format_arrays
                  (dumps (manifest_document platform_objects
                            (fst (filter_wheels b listing)) manifest_file)),
                snd (filter_wheels b listing))
         \<and> map_of (manifest_document platform_objects
                      (fst (filter_wheels b listing)) manifest_file) ''wheels''
             = Some (Strings (wheel_paths (fst (filter_wheels b listing))))"
      by (rule conjI)
  qed
  show ?thesis by (rule conjI [OF filter_wheels_sorted conjI [OF 2 conjI [OF 3 4]]])
qed

theorem filter_wheels_lexicographic_witness:
  "mset [''rich-13.7.1-py3-none-any.whl'', ''click-8.1.7-py3-none-any.whl'']
     = mset [''click-8.1.7-py3-none-any.whl'', ''rich-13.7.1-py3-none-any.whl'']
   \<and> fst (filter_wheels
        (fixture_builder default_excluded_packages
           \<lparr>config_dependencies = [''click>=8.0.0''], config_platforms = None\<rparr>)
        [''rich-13.7.1-py3-none-any.whl'', ''click-8.1.7-py3-none-any.whl''])
       = [''click-8.1.7-py3-none-any.whl'', ''rich-13.7.1-py3-none-any.whl'']
   \<and> get_platforms [''linux-x64''] =
        Inr [\<lparr>name = ''linux-x64'', pypi_suffix = ''manylinux2014_x86_64'', metadata = ''linux-x64''\<rparr>]
   \<and> map_of (manifest_document
        [\<lparr>name = ''linux-x64'', pypi_suffix = ''manylinux2014_x86_64'', metadata = ''linux-x64''\<rparr>]
        (fst (filter_wheels
          (fixture_builder default_excluded_packages
             \<lparr>config_dependencies = [''click>=8.0.0''], config_platforms = None\<rparr>)
          [''rich-13.7.1-py3-none-any.whl'', ''click-8.1.7-py3-none-any.whl'']))
        None) ''wheels''
       = Some (Strings [''./wheels/click-8.1.7-py3-none-any.whl'',
                        ''./wheels/rich-13.7.1-py3-none-any.whl''])"
proof -
  let ?b = "fixture_builder default_excluded_packages
           \<lparr>config_dependencies = [''click>=8.0.0''], config_platforms = None\<rparr>"
  let ?l1 = "[''rich-13.7.1-py3-none-any.whl'', ''click-8.1.7-py3-none-any.whl'']"
  let ?l2 = "[''click-8.1.7-py3-none-any.whl'', ''rich-13.7.1-py3-none-any.whl'']"
  let ?p = "\<lparr>name = ''linux-x64'', pypi_suffix = ''manylinux2014_x86_64'', metadata = ''linux-x64''\<rparr>"
  have m: "mset ?l1 = mset ?l2"
    by (simp add: add_mset_commute)
  have k2: "fst (filter_wheels ?b ?l2) = ?l2"
    by code_simp
  have g: "get_platforms [''linux-x64''] = Inr [?p]"
    by code_simp
  note T = filter_wheels_lexicographic [of ?b ?l2]
  have "fst (filter_wheels ?b ?l1) = fst (filter_wheels ?b ?l2)"
    by (rule T [THEN conjunct2, THEN conjunct1, THEN spec, THEN mp]) (rule m)
  with k2 have k1: "fst (filter_wheels ?b ?l1) = ?l2"
    by simp
  note U = filter_wheels_lexicographic [of ?b ?l1, THEN conjunct2, THEN conjunct2, THEN conjunct2,
      THEN spec, THEN spec, THEN spec, THEN mp, OF g, THEN conjunct2, of None]
  have w: "wheel_paths ?l2 = [''./wheels/click-8.1.7-py3-none-any.whl'',
                        ''./wheels/rich-13.7.1-py3-none-any.whl'']"
    by (simp add: wheel_paths_def)
  from U have 4: "map_of (manifest_document [?p] (fst (filter_wheels ?b ?l1)) None) ''wheels''
       = Some (Strings [''./wheels/click-8.1.7-py3-none-any.whl'',
                        ''./wheels/rich-13.7.1-py3-none-any.whl''])"
    unfolding k1 w .
  show ?thesis by (rule conjI [OF m conjI [OF k1 conjI [OF g 4]]])
qed

section \<open>Downloading wheels\<close>

lemma download_each_outcomes:
  "download_each run b ps fl sc listing =
     (fl @ failed_names (download_outcomes run b ps listing),
      sc @ succeeded_names (download_outcomes run b ps listing),
      snd (snd (download_each run b ps fl sc listing)))"
proof (induction ps arbitrary: fl sc listing)
  case Nil
  then show ?case by (simp add: failed_names_def succeeded_names_def)
next
  case (Cons p ps)
  obtain r listing' where r: "run (download_cmd b p) listing = (r, listing')"
    by (cases "run (download_cmd b p) listing")
  show ?case
  proof (cases r)
    case (Inl err)
    with r have step: "download_each run b (p # ps) fl sc listing =
        download_each run b ps (fl @ [name p]) sc listing'"
      by (simp add: run_python_command_def)
    from r Inl have oc: "download_outcomes run b (p # ps) listing =
        (name p, False) # download_outcomes run b ps listing'"
      by simp
    show ?thesis
      unfolding step oc
      by (subst Cons.IH) (simp add: failed_names_def succeeded_names_def)
  next
    case (Inr u)
    with r have step: "download_each run b (p # ps) fl sc listing =
        download_each run b ps fl (sc @ [name p]) listing'"
      by (simp add: run_python_command_def)
    from r Inr have oc: "download_outcomes run b (p # ps) listing =
        (name p, True) # download_outcomes run b ps listing'"
      by simp
    show ?thesis
      unfolding step oc
      by (subst Cons.IH) (simp add: failed_names_def succeeded_names_def)
  qed
qed

lemma download_wheels_result:
  assumes g: "get_platforms platforms = Inr platform_objects"
    and d: "config_dependencies (project_config b) \<noteq> []"
  shows "fst (download_wheels run b platforms clean ignore_platform_errors listing) =
     (let outcomes = download_outcomes run b platform_objects (if clean then [] else listing) in
      if failed_names outcomes \<noteq> [] \<and> succeeded_names outcomes = [] then
        Inl (DependencyError
          (''Failed to download wheels for all platforms: '' @ join '', '' (failed_names outcomes)))
      else if failed_names outcomes \<noteq> [] \<and> \<not> ignore_platform_errors then
        Inl (DependencyError
          (''Failed to download wheels for platforms: '' @ join '', '' (failed_names outcomes)))
      else Inr (Some (succeeded_names outcomes)))"
proof -
  let ?l = "if clean then [] else listing"
  have e: "download_each run b platform_objects [] [] ?l =
     (failed_names (download_outcomes run b platform_objects ?l),
      succeeded_names (download_outcomes run b platform_objects ?l),
      snd (snd (download_each run b platform_objects [] [] ?l)))"
    using download_each_outcomes [of run b platform_objects "[]" "[]" ?l] by simp
  show ?thesis
    unfolding download_wheels_def g
    apply (simp only: sum.case d if_False)
    apply (subst e)
    apply (simp only: prod.case Let_def)
    apply (simp only: if_distrib [of fst] fst_conv cong: if_cong)
    apply (cases ignore_platform_errors; simp only: if_True if_False simp_thms if_cancel)
    done
qed

text \<open>
  C2, at a concrete input. The descriptor has no \<open>dependencies\<close> key, so the
  constructor sets the list to empty. \<open>download_wheels\<close> then returns at once, and
  what it returns is \<open>None\<close>, not a list of platforms: no download is attempted, and
  the wheels directory is left as it was.
\<close>

theorem download_wheels_no_dependencies:
  "init no_dependencies_tree ''/cwd'' ''/proj'' None ''3.11'' None = Inr no_dependencies_builder
   \<and> download_wheels run no_dependencies_builder [''linux-x64''] clean ignore_platform_errors
         listing = (Inr None, listing)"
proof
  show "init no_dependencies_tree ''/cwd'' ''/proj'' None ''3.11'' None = Inr no_dependencies_builder"
    by (simp add: init_def no_dependencies_tree_def no_dependencies_builder_def
        fixture_builder_def validate_source_dir_def find_extension_dir_def
        load_project_config_def path_join_def)
next
  have g: "get_platforms [''linux-x64''] =
      Inr [\<lparr>name = ''linux-x64'', pypi_suffix = ''manylinux2014_x86_64'', metadata = ''linux-x64''\<rparr>]"
    by code_simp
  have d: "config_dependencies (project_config no_dependencies_builder) = []"
    by (simp add: no_dependencies_builder_def fixture_builder_def)
  show "download_wheels run no_dependencies_builder [''linux-x64''] clean ignore_platform_errors
         listing = (Inr None, listing)"
    unfolding download_wheels_def g by (simp add: d)
qed

text \<open>
  With at least one dependency and registered platform names, \<open>download_wheels\<close>
  attempts one download for each platform. A call that returns gives the names of the
  platforms whose download succeeded, in order. When some download failed and none
  succeeded it raises a dependency error; when some failed and some succeeded it returns
  the successful names if \<open>ignore_platform_errors\<close> is set and raises a dependency
  error otherwise.
\<close>

theorem download_wheels_with_dependencies:
  assumes "get_platforms platforms = Inr platform_objects"
    and "config_dependencies (project_config b) \<noteq> []"
    and "outcomes = download_outcomes run b platform_objects (if clean then [] else listing)"
  shows "(\<forall>v. fst (download_wheels run b platforms clean ignore_platform_errors listing) = Inr v
            \<longrightarrow> v = Some (succeeded_names outcomes))
    \<and> (failed_names outcomes \<noteq> [] \<and> succeeded_names outcomes = [] \<longrightarrow>
          fst (download_wheels run b platforms clean ignore_platform_errors listing) =
            Inl (DependencyError
              (''Failed to download wheels for all platforms: ''
                 @ join '', '' (failed_names outcomes))))
    \<and> (failed_names outcomes \<noteq> [] \<and> succeeded_names outcomes \<noteq> [] \<and> ignore_platform_errors \<longrightarrow>
          fst (download_wheels run b platforms clean ignore_platform_errors listing) =
            Inr (Some (succeeded_names outcomes)))
    \<and> (failed_names outcomes \<noteq> [] \<and> \<not> ignore_platform_errors \<longrightarrow>
          (\<exists>msg. fst (download_wheels run b platforms clean ignore_platform_errors listing) =
            Inl (DependencyError msg)))
    \<and> (failed_names outcomes = [] \<longrightarrow>
          fst (download_wheels run b platforms clean ignore_platform_errors listing) =
            Inr (Some (succeeded_names outcomes)))"
proof -
  note r = download_wheels_result [OF assms(1) assms(2), of run clean ignore_platform_errors listing,
      folded assms(3), unfolded Let_def]
  show ?thesis
    unfolding r by (auto split: if_splits)
qed

theorem download_wheels_with_dependencies_witness:
  "get_platforms [''windows-x64'', ''linux-x64''] =
     Inr [\<lparr>name = ''windows-x64'', pypi_suffix = ''win_amd64'', metadata = ''windows-x64''\<rparr>,
          \<lparr>name = ''linux-x64'', pypi_suffix = ''manylinux2014_x86_64'', metadata = ''linux-x64''\<rparr>]
   \<and> config_dependencies (project_config
        (fixture_builder default_excluded_packages
           \<lparr>config_dependencies = [''click>=8.0.0''], config_platforms = None\<rparr>)) \<noteq> []
   \<and> download_outcomes windows_fails
        (fixture_builder default_excluded_packages
           \<lparr>config_dependencies = [''click>=8.0.0''], config_platforms = None\<rparr>)
        [\<lparr>name = ''windows-x64'', pypi_suffix = ''win_amd64'', metadata = ''windows-x64''\<rparr>,
         \<lparr>name = ''linux-x64'', pypi_suffix = ''manylinux2014_x86_64'', metadata = ''linux-x64''\<rparr>]
        (if True then [] else [''old.whl''])
       = [(''windows-x64'', False), (''linux-x64'', True)]
   \<and> fst (download_wheels windows_fails
        (fixture_builder default_excluded_packages
           \<lparr>config_dependencies = [''click>=8.0.0''], config_platforms = None\<rparr>)
        [''windows-x64'', ''linux-x64''] True True [''old.whl''])
       = Inr (Some [''linux-x64''])
   \<and> (\<exists>msg. fst (download_wheels windows_fails
        (fixture_builder default_excluded_packages
           \<lparr>config_dependencies = [''click>=8.0.0''], config_platforms = None\<rparr>)
        [''windows-x64'', ''linux-x64''] True False [''old.whl''])
       = Inl (DependencyError msg))"
proof -
  let ?b = "fixture_builder default_excluded_packages
           \<lparr>config_dependencies = [''click>=8.0.0''], config_platforms = None\<rparr>"
  let ?pos = "[\<lparr>name = ''windows-x64'', pypi_suffix = ''win_amd64'', metadata = ''windows-x64''\<rparr>,
         \<lparr>name = ''linux-x64'', pypi_suffix = ''manylinux2014_x86_64'', metadata = ''linux-x64''\<rparr>]"
  let ?oc = "[(''windows-x64'', False), (''linux-x64'', True)]"
  have g: "get_platforms [''windows-x64'', ''linux-x64''] = Inr ?pos"
    by code_simp
  have d: "config_dependencies (project_config ?b) \<noteq> []"
    by (simp add: fixture_builder_def)
  have oc: "download_outcomes windows_fails ?b ?pos (if True then [] else [''old.whl'']) = ?oc"
    by code_simp
  have f: "failed_names ?oc \<noteq> [] \<and> succeeded_names ?oc \<noteq> [] \<and> True"
    by (simp add: failed_names_def succeeded_names_def)
  have f': "failed_names ?oc \<noteq> [] \<and> \<not> False"
    by (simp add: failed_names_def succeeded_names_def)
  have s: "succeeded_names ?oc = [''linux-x64'']"
    by (simp add: succeeded_names_def)
  note T = download_wheels_with_dependencies [OF g d oc [symmetric]]
  have 1: "fst (download_wheels windows_fails ?b [''windows-x64'', ''linux-x64''] True True [''old.whl''])
       = Inr (Some [''linux-x64''])"
    using T [of True, THEN conjunct2, THEN conjunct2, THEN conjunct1, THEN mp, OF f]
    unfolding s .
  have 2: "\<exists>msg. fst (download_wheels windows_fails ?b [''windows-x64'', ''linux-x64''] True False [''old.whl''])
       = Inl (DependencyError msg)"
    by (rule T [of False, THEN conjunct2, THEN conjunct2, THEN conjunct2, THEN conjunct1, THEN mp, OF f'])
  show ?thesis
    by (rule conjI [OF g conjI [OF d conjI [OF oc conjI [OF 1 2]]]])
qed

section \<open>Updating the manifest\<close>

lemma get_platforms_metadata:
  "get_platforms platforms = Inr platform_objects \<Longrightarrow> map metadata platform_objects = platforms"
proof (induction platforms arbitrary: platform_objects)
  case Nil
  then show ?case by auto
next
  case (Cons n ns)
  from Cons.prems obtain p ps where p: "get_platform n = Inr p"
    and ps: "get_platforms ns = Inr ps" and eq: "platform_objects = p # ps"
    by (auto split: sum.splits)
  from p have "map_of PLATFORMS n = Some p"
    by (auto simp: get_platform_def split: option.splits)
  then have "metadata p = n"
    by (rule PLATFORMS_metadata_is_key)
  with Cons.IH [OF ps] eq show ?case by simp
qed

lemma manifest_document_platforms:
  "map_of (manifest_document platform_objects wheel_files manifest_file) ''platforms''
     = Some (Strings (map metadata platform_objects))"
  by (simp add: manifest_document_def Let_def map_of_set_item)

lemma manifest_document_other_keys:
  "k \<noteq> ''wheels'' \<and> k \<noteq> ''platforms'' \<Longrightarrow>
   map_of (manifest_document platform_objects wheel_files manifest_file) k
     = map_of (case manifest_file of Some doc \<Rightarrow> doc | None \<Rightarrow> []) k"
  by (simp add: manifest_document_def Let_def map_of_set_item)

text \<open>
  C5, at a concrete input. The manifest has a \<open>tagline\<close> whose value is a Windows
  path with one backslash, written in the file as a basic string with the backslash
  escaped (doubled). After \<open>update_manifest\<close> the file holds
  \<open>tagline = "C:/tools"\<close>: the replacement of a doubled backslash by a slash runs
  over the whole serialised text, not over the wheel paths alone. The same file is
  written for the manifest whose \<open>tagline\<close> was \<open>C:/tools\<close> to begin with, so the
  value of this field is not preserved.
\<close>

theorem update_manifest_rewrites_other_field:
  "update_manifest
      (fixture_builder default_excluded_packages
         \<lparr>config_dependencies = [''click>=8.0.0''], config_platforms = None\<rparr>)
      [''linux-x64''] [''click-8.1.7-py3-none-any.whl''] (Some manifest_with_backslash)
     = Inr (''id = '' @ [dq] @ ''test-extension'' @ [dq, nl]
            @ ''tagline = '' @ [dq] @ ''C:/tools'' @ [dq, nl]
            @ ''wheels = ['' @ [nl, tab, dq] @ ''./wheels/click-8.1.7-py3-none-any.whl''
            @ [dq] @ '','' @ [nl] @ '']'' @ [nl]
            @ ''platforms = ['' @ [nl, tab, dq] @ ''linux-x64''
            @ [dq] @ '','' @ [nl] @ '']'' @ [nl],
            [''click-8.1.7-py3-none-any.whl''])
   \<and> update_manifest
      (fixture_builder default_excluded_packages
         \<lparr>config_dependencies = [''click>=8.0.0''], config_platforms = None\<rparr>)
      [''linux-x64''] [''click-8.1.7-py3-none-any.whl''] (Some manifest_with_slash)
     = update_manifest
      (fixture_builder default_excluded_packages
         \<lparr>config_dependencies = [''click>=8.0.0''], config_platforms = None\<rparr>)
      [''linux-x64''] [''click-8.1.7-py3-none-any.whl''] (Some manifest_with_backslash)
   \<and> map_of manifest_with_backslash ''tagline''
        = Some (Source ([dq] @ ''C:'' @ [bs, bs] @ ''tools'' @ [dq]))
   \<and> map_of manifest_with_slash ''tagline'' = Some (Source ([dq] @ ''C:/tools'' @ [dq]))"
  by code_simp

text \<open>
  In the document that \<open>update_manifest\<close> serialises, the \<open>wheels\<close> key holds the
  relative paths of the kept wheels, the \<open>platforms\<close> key holds the metadata strings
  of the given platforms (which are their names), and every other key has the value it
  had in the manifest that was loaded.
\<close>

theorem update_manifest_document_fields:
  assumes "get_platforms platforms = Inr platform_objects"
    and "doc = manifest_document platform_objects (fst (filter_wheels b listing)) manifest_file"
  shows "update_manifest b platforms listing manifest_file =
           Inr (format_arrays (dumps doc), snd (filter_wheels b listing))
    \<and> map_of doc ''wheels'' = Some (Strings (wheel_paths (fst (filter_wheels b listing))))
    \<and> map_of doc ''platforms'' = Some (Strings platforms)
    \<and> (\<forall>k. k \<noteq> ''wheels'' \<and> k \<noteq> ''platforms'' \<longrightarrow>
          map_of doc k = map_of (case manifest_file of Some d \<Rightarrow> d | None \<Rightarrow> []) k)"
proof -
  have 1: "update_manifest b platforms listing manifest_file =
           Inr (format_arrays (dumps doc), snd (filter_wheels b listing))"
    unfolding assms(2) using assms(1) by (rule update_manifest_document)
  have 2: "map_of doc ''wheels'' = Some (Strings (wheel_paths (fst (filter_wheels b listing))))"
    unfolding assms(2) by (rule manifest_document_wheels)
  have "map_of doc ''platforms'' = Some (Strings (map metadata platform_objects))"
    unfolding assms(2) by (rule manifest_document_platforms)
  then have 3: "map_of doc ''platforms'' = Some (Strings platforms)"
    by (simp only: get_platforms_metadata [OF assms(1)])
  have 4: "\<forall>k. k \<noteq> ''wheels'' \<and> k \<noteq> ''platforms'' \<longrightarrow>
          map_of doc k = map_of (case manifest_file of Some d \<Rightarrow> d | None \<Rightarrow> []) k"
    unfolding assms(2) by (intro allI impI) (rule manifest_document_other_keys)
  show ?thesis
    by (rule conjI [OF 1 conjI [OF 2 conjI [OF 3 4]]])
qed

theorem update_manifest_document_fields_witness:
  "get_platforms [''linux-x64''] =
     Inr [\<lparr>name = ''linux-x64'', pypi_suffix = ''manylinux2014_x86_64'', metadata = ''linux-x64''\<rparr>]
   \<and> ''id'' \<noteq> ''wheels'' \<and> ''id'' \<noteq> ''platforms''
   \<and> map_of (manifest_document
        [\<lparr>name = ''linux-x64'', pypi_suffix = ''manylinux2014_x86_64'', metadata = ''linux-x64''\<rparr>]
        (fst (filter_wheels
          (fixture_builder default_excluded_packages
             \<lparr>config_dependencies = [''click>=8.0.0''], config_platforms = None\<rparr>)
          [''click-8.1.7-py3-none-any.whl'']))
        (Some manifest_with_slash)) ''id''
       = Some (Source ([dq] @ ''test-extension'' @ [dq]))
   \<and> map_of (manifest_document
        [\<lparr>name = ''linux-x64'', pypi_suffix = ''manylinux2014_x86_64'', metadata = ''linux-x64''\<rparr>]
        (fst (filter_wheels
          (fixture_builder default_excluded_packages
             \<lparr>config_dependencies = [''click>=8.0.0''], config_platforms = None\<rparr>)
          [''click-8.1.7-py3-none-any.whl'']))
        (Some manifest_with_slash)) ''platforms''
       = Some (Strings [''linux-x64''])"
proof -
  let ?b = "fixture_builder default_excluded_packages
             \<lparr>config_dependencies = [''click>=8.0.0''], config_platforms = None\<rparr>"
  let ?p = "\<lparr>name = ''linux-x64'', pypi_suffix = ''manylinux2014_x86_64'', metadata = ''linux-x64''\<rparr>"
  let ?doc = "manifest_document [?p] (fst (filter_wheels ?b [''click-8.1.7-py3-none-any.whl'']))
        (Some manifest_with_slash)"
  have g: "get_platforms [''linux-x64''] = Inr [?p]"
    by code_simp
  have k: "''id'' \<noteq> ''wheels'' \<and> ''id'' \<noteq> ''platforms''"
    by simp
  have v: "map_of (case Some manifest_with_slash of Some d \<Rightarrow> d | None \<Rightarrow> []) ''id''
      = Some (Source ([dq] @ ''test-extension'' @ [dq]))"
    by (simp add: manifest_with_slash_def)
  note T = update_manifest_document_fields [OF g refl, of ?b "[''click-8.1.7-py3-none-any.whl'']"
      "Some manifest_with_slash"]
  note T4 = T [THEN conjunct2, THEN conjunct2, THEN conjunct2, THEN spec, THEN mp, OF k]
  have 1: "map_of ?doc ''id'' = Some (Source ([dq] @ ''test-extension'' @ [dq]))"
    using T4 unfolding v .
  have 2: "map_of ?doc ''platforms'' = Some (Strings [''linux-x64''])"
    by (rule T [THEN conjunct2, THEN conjunct2, THEN conjunct1])
  show ?thesis
    by (rule conjI [OF g conjI [OF k [THEN conjunct1] conjI [OF k [THEN conjunct2] conjI [OF 1 2]]]])
qed

end
